theory Spec2Isabelle
  imports Main "HOL-Library.Char_ord" "HOL-Library.List_Lexorder"
begin

text \<open>
  The chat core of the backend, embedded function by function: the codec of
  \<^verbatim>\<open>utils/encryption.ts\<close>, the entities \<^verbatim>\<open>Conversation\<close> and \<^verbatim>\<open>MessageMetadata\<close>, the
  \<^verbatim>\<open>Message\<close> document, \<^verbatim>\<open>ConversationRepository\<close>, \<^verbatim>\<open>MessageRepository\<close> and
  \<^verbatim>\<open>ChatService\<close>. The relational tables and the document collection are lists of rows
  in a state that every operation takes and returns; calls run one after the other, so
  interleavings of concurrent requests are not part of the model. What a call takes from
  outside (the clock, generated ids, random values, whether a store accepts the call) is
  an argument.
\<close>

section \<open>Strings, optional values and errors\<close>

text \<open>
  A TypeScript \<^verbatim>\<open>string\<close> is modelled as a HOL \<open>string\<close>: one \<open>char\<close> stands for one
  code unit, so \<open>length\<close> is \<^verbatim>\<open>.length\<close> and the order of \<open>HOL-Library.List_Lexorder\<close> over
  \<open>HOL-Library.Char_ord\<close> is the code-unit order that \<^verbatim>\<open>Array.prototype.sort\<close> uses by
  default. Only code units below 256 are representable. An optional field
  (\<^verbatim>\<open>content?: string\<close>) is an \<open>option\<close>; \<open>None\<close> is \<^verbatim>\<open>undefined\<close>.

  Every \<^verbatim>\<open>throw\<close> of the source is a value of \<open>error\<close>:
  \<^item> \<open>BlockedConversation\<close>: "Cannot send message to blocked conversation";
  \<^item> \<open>EmptyContent\<close>: "Message content cannot be empty";
  \<^item> \<open>TooLong\<close>: "Message exceeds maximum length of 5000 characters";
  \<^item> \<open>EncryptFailed\<close>: "Failed to encrypt message";
  \<^item> \<open>DecryptFailed\<close>: "Failed to decrypt message";
  \<^item> \<open>MessageNotFound\<close>: "Message not found";
  \<^item> \<open>Unauthorized\<close>: "Unauthorized to delete this message";
  \<^item> \<open>StoreError\<close>: whatever a rejected call to one of the two stores throws.
\<close>

datatype error =
    BlockedConversation
  | EmptyContent
  | TooLong
  | EncryptFailed
  | DecryptFailed
  | MessageNotFound
  | Unauthorized
  | StoreError

text \<open>JavaScript truthiness of an optional string: \<^verbatim>\<open>undefined\<close> and \<^verbatim>\<open>""\<close> are falsy.\<close>

fun truthy :: "string option \<Rightarrow> bool" where
  "truthy None = False"
| "truthy (Some s) = (s \<noteq> [])"

section \<open>src/utils/encryption.ts\<close>

subsection \<open>validateMessageContent\<close>

text \<open>
  The white space that \<^verbatim>\<open>String.prototype.trim\<close> strips, among the representable code
  units: tab, line feed, vertical tab, form feed, carriage return, space, no-break space.
\<close>

definition is_js_space :: "char \<Rightarrow> bool" where
  "is_js_space c \<longleftrightarrow>
     c = CHR 0x09 \<or> c = CHR 0x0A \<or> c = CHR 0x0B \<or> c = CHR 0x0C \<or> c = CHR 0x0D
     \<or> c = CHR 0x20 \<or> c = CHR 0xA0"

definition trim :: "string \<Rightarrow> string" where
  "trim s = rev (dropWhile is_js_space (rev (dropWhile is_js_space s)))"

definition MAX_MESSAGE_LENGTH :: nat where
  "MAX_MESSAGE_LENGTH = 5000"

definition validateMessageContent :: "string \<Rightarrow> error + bool" where
  "validateMessageContent content =
     (if content = [] \<or> length (trim content) = 0 then Inl EmptyContent
      else if length content > MAX_MESSAGE_LENGTH then Inl TooLong
      else Inr True)"

subsection \<open>sanitizeMessageContent\<close>

text \<open>
  \<^verbatim>\<open>s.replace(/c/g, r)\<close> for a one-character pattern \<open>c\<close> and a replacement \<open>r\<close> without
  \<^verbatim>\<open>$\<close>: every occurrence of \<open>c\<close> becomes \<open>r\<close>.
\<close>

definition replace_all :: "char \<Rightarrow> string \<Rightarrow> string \<Rightarrow> string" where
  "replace_all c r s = concat (map (\<lambda>x. if x = c then r else [x]) s)"

definition sanitizeMessageContent :: "string \<Rightarrow> string" where
  "sanitizeMessageContent content =
     replace_all CHR ''/'' ''&#x2F;''
       (replace_all CHR 0x27 ''&#x27;''
         (replace_all CHR 0x22 ''&quot;''
           (replace_all CHR ''>'' ''&gt;''
             (replace_all CHR ''<'' ''&lt;'' content))))"

subsection \<open>encryptMessage and decryptMessage\<close>

text \<open>
  The AES of the crypto-js package is not part of the repository, so the cipher under the
  process-wide key is a parameter: \<open>enc salt plaintext\<close> is
  \<^verbatim>\<open>CryptoJS.AES.encrypt(plaintext, ENCRYPTION_KEY).toString()\<close> for the random salt the
  library draws (\<open>None\<close> when it throws), and \<open>dec ciphertext\<close> is
  \<^verbatim>\<open>CryptoJS.AES.decrypt(ciphertext, ENCRYPTION_KEY).toString(CryptoJS.enc.Utf8)\<close>
  (\<open>None\<close> when it throws, as on malformed UTF-8).
\<close>

record cipher =
  enc :: "string \<Rightarrow> string \<Rightarrow> string option"
  dec :: "string \<Rightarrow> string option"

record EncryptedData =
  encrypted :: string
  iv :: string

text \<open>The \<open>iv\<close> argument is the value of \<^verbatim>\<open>CryptoJS.lib.WordArray.random(128 / 8).toString()\<close>.\<close>

definition encryptMessage :: "cipher \<Rightarrow> string \<Rightarrow> string \<Rightarrow> string \<Rightarrow> error + EncryptedData" where
  "encryptMessage cph salt iv0 plaintext =
     (case enc cph salt plaintext of
        None \<Rightarrow> Inl EncryptFailed
      | Some c \<Rightarrow> Inr \<lparr>encrypted = c, iv = iv0\<rparr>)"

text \<open>
  The \<^verbatim>\<open>throw\<close> on an empty result sits inside the \<^verbatim>\<open>try\<close>, so it leaves the function as
  "Failed to decrypt message" like every other failure.
\<close>

definition decryptMessage :: "cipher \<Rightarrow> string \<Rightarrow> error + string" where
  "decryptMessage cph ciphertext =
     (case dec cph ciphertext of
        None \<Rightarrow> Inl DecryptFailed
      | Some decrypted \<Rightarrow> if decrypted = [] then Inl DecryptFailed else Inr decrypted)"

text \<open>
  What is assumed of the library: encrypting never throws, and decrypting a ciphertext it
  produced gives the plaintext back, whatever the salt.
\<close>

definition cipher_correct :: "cipher \<Rightarrow> bool" where
  "cipher_correct cph \<longleftrightarrow> (\<forall>salt p. \<exists>c. enc cph salt p = Some c \<and> dec cph c = Some p)"

text \<open>
  A stand-in cipher for concrete runs: the first character of the salt (\<open>0\<close> for an empty
  salt) is put in front of the plaintext, and decrypting removes the first character; the
  empty ciphertext is malformed.
\<close>

definition toy_cipher :: cipher where
  "toy_cipher = \<lparr>enc = (\<lambda>salt p. Some (hd (salt @ ''0'') # p)),
                  dec = (\<lambda>c. case c of [] \<Rightarrow> None | _ # p \<Rightarrow> Some p)\<rparr>"

section \<open>The two stores\<close>

text \<open>
  Field names follow the source; where two classes share a field name, the fields of the
  document (\<^verbatim>\<open>IMessage\<close>) carry the prefix \<open>m_\<close>, those of \<^verbatim>\<open>CreateMessageData\<close>
  \<open>d_\<close>, those of \<^verbatim>\<open>SendMessageParams\<close> \<open>p_\<close> and those of \<^verbatim>\<open>MessageWithMetadata\<close>
  \<open>o_\<close>; \<^verbatim>\<open>id\<close> is \<open>conv_id\<close> on a conversation and \<open>meta_id\<close> on a metadata row.
  A \<^verbatim>\<open>Date\<close> is a number of clock ticks.
\<close>

type_synonym timestamp = nat

datatype MessageType = TEXT | IMAGE | VIDEO | FILE

text \<open>entities/Conversation.ts\<close>

record Conversation =
  conv_id :: string
  participant1Id :: string
  participant2Id :: string
  lastMessageAt :: "timestamp option"
  lastMessagePreview :: "string option"
  isBlocked :: bool
  blockedBy :: "string option"
  conv_createdAt :: timestamp
  conv_updatedAt :: timestamp

text \<open>entities/MessageMetadata.ts\<close>

record MessageMetadata =
  meta_id :: string
  conversationId :: string
  mongoMessageId :: string
  senderId :: string
  receiverId :: string
  messageType :: MessageType
  isDelivered :: bool
  isRead :: bool
  deliveredAt :: "timestamp option"
  readAt :: "timestamp option"
  isDeleted :: bool
  createdAt :: timestamp

text \<open>model/messageSchema.ts\<close>

record IMessage =
  m_id :: string
  m_conversationId :: string
  m_senderId :: string
  m_receiverId :: string
  m_messageType :: MessageType
  encryptedContent :: "string option"
  mediaUrl :: "string option"
  mediaType :: "string option"
  mediaSize :: "int option"
  fileName :: "string option"
  thumbnailUrl :: "string option"
  replyToMessageId :: "string option"
  m_createdAt :: timestamp
  m_updatedAt :: timestamp

text \<open>
  The state: the rows of the two relational tables and the documents of the collection,
  each in insertion order.
\<close>

record db =
  conversations :: "Conversation list"
  metadata :: "MessageMetadata list"
  messages :: "IMessage list"

text \<open>
  A call to a store may be rejected (connection lost, constraint or schema validation
  failed, bad criteria); the \<open>fails\<close> flag of each call below is that outcome, chosen by
  the environment. An operation returns its result or error together with the state it
  leaves, since an error after a write does not undo the write.

  \<^verbatim>\<open>repository.save\<close> of a new conversation: the primary key and the unique index on
  \<^verbatim>\<open>["participant1Id", "participant2Id"]\<close> reject a duplicate.
\<close>

definition save_conversation :: "bool \<Rightarrow> Conversation \<Rightarrow> db \<Rightarrow> (error + Conversation) \<times> db" where
  "save_conversation fails c s =
     (if fails
         \<or> list_ex (\<lambda>r. conv_id r = conv_id c) (conversations s)
         \<or> list_ex (\<lambda>r. participant1Id r = participant1Id c \<and> participant2Id r = participant2Id c)
              (conversations s)
      then (Inl StoreError, s)
      else (Inr c, s\<lparr>conversations := conversations s @ [c]\<rparr>))"

text \<open>\<^verbatim>\<open>repository.update(id, partial)\<close> on the conversations table; it also stamps \<^verbatim>\<open>updatedAt\<close>.\<close>

definition update_conversation ::
  "bool \<Rightarrow> timestamp \<Rightarrow> string \<Rightarrow> (Conversation \<Rightarrow> Conversation) \<Rightarrow> db \<Rightarrow> (error + unit) \<times> db" where
  "update_conversation fails now cid f s =
     (if fails then (Inl StoreError, s)
      else (Inr (), s\<lparr>conversations :=
              map (\<lambda>r. if conv_id r = cid then (f r)\<lparr>conv_updatedAt := now\<rparr> else r) (conversations s)\<rparr>))"

text \<open>\<^verbatim>\<open>metadataRepository.update(ids, partial)\<close>: every row whose id is among \<open>ids\<close>.\<close>

definition update_metadata ::
  "bool \<Rightarrow> string list \<Rightarrow> (MessageMetadata \<Rightarrow> MessageMetadata) \<Rightarrow> db \<Rightarrow> (error + unit) \<times> db" where
  "update_metadata fails ids f s =
     (if fails then (Inl StoreError, s)
      else (Inr (), s\<lparr>metadata := map (\<lambda>r. if meta_id r \<in> set ids then f r else r) (metadata s)\<rparr>))"

section \<open>repository/ConversationRepository.ts\<close>

text \<open>\<^verbatim>\<open>[user1Id, user2Id].sort()\<close>: the two ids in ascending code-unit order.\<close>

definition sort_pair :: "string \<Rightarrow> string \<Rightarrow> string \<times> string" where
  "sort_pair user1Id user2Id = (if user2Id < user1Id then (user2Id, user1Id) else (user1Id, user2Id))"

text \<open>
  Arguments: the outcome of the lookup and of the insert, then the id and the creation
  time the store gives a new row.
\<close>

definition findOrCreateConversation ::
  "bool \<Rightarrow> bool \<Rightarrow> string \<Rightarrow> timestamp \<Rightarrow> string \<Rightarrow> string \<Rightarrow> db \<Rightarrow> (error + Conversation) \<times> db" where
  "findOrCreateConversation failFind failSave newId now user1Id user2Id s =
     (case sort_pair user1Id user2Id of (participantA, participantB) \<Rightarrow>
        if failFind then (Inl StoreError, s)
        else
          (case find (\<lambda>r. (participant1Id r = participantA \<and> participant2Id r = participantB)
                         \<or> (participant1Id r = participantB \<and> participant2Id r = participantA))
                  (conversations s) of
             Some conversation \<Rightarrow> (Inr conversation, s)
           | None \<Rightarrow>
               save_conversation failSave
                 \<lparr>conv_id = newId, participant1Id = participantA, participant2Id = participantB,
                  lastMessageAt = None, lastMessagePreview = None, isBlocked = False,
                  blockedBy = None, conv_createdAt = now, conv_updatedAt = now\<rparr> s))"

definition updateLastMessage ::
  "bool \<Rightarrow> timestamp \<Rightarrow> string \<Rightarrow> string \<Rightarrow> timestamp \<Rightarrow> db \<Rightarrow> (error + unit) \<times> db" where
  "updateLastMessage fails now conversationId0 preview ts s =
     update_conversation fails now conversationId0
       (\<lambda>r. r\<lparr>lastMessagePreview := Some (take 500 preview), lastMessageAt := Some ts\<rparr>) s"

text \<open>
  The id comes from the caller; \<^verbatim>\<open>update\<close> rejects the empty string as criteria whatever
  the state of the store.
\<close>

definition blockConversation :: "bool \<Rightarrow> timestamp \<Rightarrow> string \<Rightarrow> string \<Rightarrow> db \<Rightarrow> (error + unit) \<times> db" where
  "blockConversation fails now conversationId0 userId s =
     (if conversationId0 = [] then (Inl StoreError, s)
      else update_conversation fails now conversationId0
             (\<lambda>r. r\<lparr>isBlocked := True, blockedBy := Some userId\<rparr>) s)"

text \<open>The \<^verbatim>\<open>catch\<close> of this method returns \<^verbatim>\<open>false\<close> instead of rethrowing.\<close>

definition isConversationBlocked :: "bool \<Rightarrow> string \<Rightarrow> db \<Rightarrow> bool" where
  "isConversationBlocked fails conversationId0 s =
     (if fails then False
      else (case find (\<lambda>r. conv_id r = conversationId0) (conversations s) of
              None \<Rightarrow> False
            | Some conversation \<Rightarrow> isBlocked conversation))"

section \<open>repository/MessageRepository.ts\<close>

record CreateMessageData =
  d_conversationId :: string
  d_senderId :: string
  d_receiverId :: string
  d_messageType :: MessageType
  d_encryptedContent :: "string option"
  d_mediaUrl :: "string option"
  d_mediaType :: "string option"
  d_mediaSize :: "int option"
  d_fileName :: "string option"
  d_thumbnailUrl :: "string option"
  d_replyToMessageId :: "string option"

text \<open>
  \<^verbatim>\<open>mongoMessage.save()\<close> and \<^verbatim>\<open>metadataRepository.save(metadata)\<close>: each store rejects a
  duplicate primary key.
\<close>

definition save_message :: "bool \<Rightarrow> IMessage \<Rightarrow> db \<Rightarrow> (error + IMessage) \<times> db" where
  "save_message fails m s =
     (if fails \<or> list_ex (\<lambda>r. m_id r = m_id m) (messages s) then (Inl StoreError, s)
      else (Inr m, s\<lparr>messages := messages s @ [m]\<rparr>))"

definition save_metadata :: "bool \<Rightarrow> MessageMetadata \<Rightarrow> db \<Rightarrow> (error + MessageMetadata) \<times> db" where
  "save_metadata fails r s =
     (if fails \<or> list_ex (\<lambda>x. meta_id x = meta_id r) (metadata s) then (Inl StoreError, s)
      else (Inr r, s\<lparr>metadata := metadata s @ [r]\<rparr>))"

text \<open>
  Arguments: the outcome of the two inserts, the ids the stores generate for the document
  and for the row, and the creation time.
\<close>

definition createMessage ::
  "bool \<Rightarrow> bool \<Rightarrow> string \<Rightarrow> string \<Rightarrow> timestamp \<Rightarrow> CreateMessageData \<Rightarrow> db
     \<Rightarrow> (error + IMessage \<times> MessageMetadata) \<times> db" where
  "createMessage failMessage failMetadata newMongoId newMetaId now data s =
     (case save_message failMessage
             \<lparr>m_id = newMongoId,
              m_conversationId = d_conversationId data,
              m_senderId = d_senderId data,
              m_receiverId = d_receiverId data,
              m_messageType = d_messageType data,
              encryptedContent = d_encryptedContent data,
              mediaUrl = d_mediaUrl data,
              mediaType = d_mediaType data,
              mediaSize = d_mediaSize data,
              fileName = d_fileName data,
              thumbnailUrl = d_thumbnailUrl data,
              replyToMessageId = d_replyToMessageId data,
              m_createdAt = now, m_updatedAt = now\<rparr> s of
        (Inl e, s1) \<Rightarrow> (Inl e, s1)
      | (Inr savedMessage, s1) \<Rightarrow>
          (case save_metadata failMetadata
                  \<lparr>meta_id = newMetaId,
                   conversationId = d_conversationId data,
                   mongoMessageId = m_id savedMessage,
                   senderId = d_senderId data,
                   receiverId = d_receiverId data,
                   messageType = d_messageType data,
                   isDelivered = False, isRead = False,
                   deliveredAt = None, readAt = None,
                   isDeleted = False, createdAt = now\<rparr> s1 of
             (Inl e, s2) \<Rightarrow> (Inl e, s2)
           | (Inr savedMetadata, s2) \<Rightarrow> (Inr (savedMessage, savedMetadata), s2)))"

text \<open>
  \<^verbatim>\<open>findAndCount\<close> with \<^verbatim>\<open>order: { createdAt: "DESC" }\<close>, \<^verbatim>\<open>skip\<close> and \<^verbatim>\<open>take\<close>: the matching
  rows, newest first, and their number before paging. The database rejects a negative
  offset or limit.
\<close>

definition find_metadata_page ::
  "bool \<Rightarrow> string \<Rightarrow> int \<Rightarrow> int \<Rightarrow> db \<Rightarrow> error + MessageMetadata list \<times> nat" where
  "find_metadata_page fails conversationId0 skip limit s =
     (if fails \<or> skip < 0 \<or> limit < 0 then Inl StoreError
      else
        (let rows = filter (\<lambda>r. conversationId r = conversationId0 \<and> isDeleted r = False) (metadata s)
         in Inr (take (nat limit) (drop (nat skip) (rev (sort_key createdAt rows))), length rows)))"

definition getMessagesByConversation ::
  "bool \<Rightarrow> bool \<Rightarrow> string \<Rightarrow> int \<Rightarrow> int \<Rightarrow> db \<Rightarrow> error + (IMessage \<times> MessageMetadata) list \<times> nat" where
  "getMessagesByConversation failMetadata failMessages conversationId0 page limit s =
     (let skip = (page - 1) * limit in
      case find_metadata_page failMetadata conversationId0 skip limit s of
        Inl e \<Rightarrow> Inl e
      | Inr (metadataList, total0) \<Rightarrow>
          if failMessages then Inl StoreError
          else
            (let mongoMessageIds = map mongoMessageId metadataList;
                 mongoMessages = filter (\<lambda>m. m_id m \<in> set mongoMessageIds) (messages s);
                 messagesWithMetadata =
                   List.map_filter
                     (\<lambda>r. case find (\<lambda>m. m_id m = mongoMessageId r) mongoMessages of
                            None \<Rightarrow> None
                          | Some m \<Rightarrow> Some (m, r))
                     metadataList
             in Inr (messagesWithMetadata, total0)))"

text \<open>
  \<open>now\<close> is the value of \<^verbatim>\<open>new Date()\<close> at the call. \<^verbatim>\<open>update\<close> rejects empty criteria
  whatever the state of the store: the empty string and the empty array make it throw
  ("Empty criteria(s) are not allowed for the update method"), and the \<^verbatim>\<open>catch\<close> rethrows.
  Both methods take their criteria from the caller, so that rejection is a branch of each;
  \<open>deleteMessage\<close> and \<open>updateLastMessage\<close> update by the id of a row they have just read.
\<close>

definition markAsDelivered :: "bool \<Rightarrow> timestamp \<Rightarrow> string \<Rightarrow> db \<Rightarrow> (error + unit) \<times> db" where
  "markAsDelivered fails now messageId s =
     (if messageId = [] then (Inl StoreError, s)
      else update_metadata fails [messageId]
             (\<lambda>r. r\<lparr>isDelivered := True, deliveredAt := Some now\<rparr>) s)"

definition markAsRead :: "bool \<Rightarrow> timestamp \<Rightarrow> string list \<Rightarrow> db \<Rightarrow> (error + unit) \<times> db" where
  "markAsRead fails now messageIds s =
     (if messageIds = [] then (Inl StoreError, s)
      else update_metadata fails messageIds (\<lambda>r. r\<lparr>isRead := True, readAt := Some now\<rparr>) s)"

definition deleteMessage :: "bool \<Rightarrow> bool \<Rightarrow> string \<Rightarrow> string \<Rightarrow> db \<Rightarrow> (error + unit) \<times> db" where
  "deleteMessage failFind failUpdate messageId userId s =
     (if failFind then (Inl StoreError, s)
      else
        (case find (\<lambda>r. meta_id r = messageId) (metadata s) of
           None \<Rightarrow> (Inl MessageNotFound, s)
         | Some metadata0 \<Rightarrow>
             if senderId metadata0 \<noteq> userId then (Inl Unauthorized, s)
             else update_metadata failUpdate [messageId] (\<lambda>r. r\<lparr>isDeleted := True\<rparr>) s))"

text \<open>The \<^verbatim>\<open>catch\<close> of this method returns \<^verbatim>\<open>0\<close> instead of rethrowing.\<close>

definition getUnreadCount :: "bool \<Rightarrow> string \<Rightarrow> string option \<Rightarrow> db \<Rightarrow> nat" where
  "getUnreadCount fails userId conversationId0 s =
     (if fails then 0
      else
        (let where0 = (\<lambda>r. receiverId r = userId \<and> isRead r = False \<and> isDeleted r = False);
             where1 = (if truthy conversationId0
                       then (\<lambda>r. where0 r \<and> conversationId r = the conversationId0)
                       else where0)
         in length (filter where1 (metadata s))))"

section \<open>service/chat.service.ts\<close>

record SendMessageParams =
  p_senderId :: string
  p_receiverId :: string
  p_messageType :: MessageType
  p_content :: "string option"
  p_mediaUrl :: "string option"
  p_mediaType :: "string option"
  p_mediaSize :: "int option"
  p_fileName :: "string option"
  p_thumbnailUrl :: "string option"
  p_replyToMessageId :: "string option"

record MessageWithMetadata =
  o_id :: string
  o_conversationId :: string
  o_senderId :: string
  o_receiverId :: string
  o_messageType :: MessageType
  o_content :: "string option"
  o_mediaUrl :: "string option"
  o_mediaType :: "string option"
  o_mediaSize :: "int option"
  o_fileName :: "string option"
  o_thumbnailUrl :: "string option"
  o_replyToMessageId :: "string option"
  o_isDelivered :: bool
  o_isRead :: bool
  o_deliveredAt :: "timestamp option"
  o_readAt :: "timestamp option"
  o_createdAt :: timestamp

text \<open>The \<^verbatim>\<open>catch\<close> around \<^verbatim>\<open>decryptMessage\<close> makes this function total.\<close>

definition formatMessage :: "cipher \<Rightarrow> IMessage \<Rightarrow> MessageMetadata \<Rightarrow> MessageWithMetadata" where
  "formatMessage cph message metadata0 =
     (let content =
            (if truthy (encryptedContent message) \<and> m_messageType message = TEXT
             then (case decryptMessage cph (the (encryptedContent message)) of
                     Inr decrypted \<Rightarrow> Some decrypted
                   | Inl e \<Rightarrow> Some ''[Encrypted message]'')
             else None)
      in \<lparr>o_id = meta_id metadata0,
          o_conversationId = conversationId metadata0,
          o_senderId = senderId metadata0,
          o_receiverId = receiverId metadata0,
          o_messageType = messageType metadata0,
          o_content = content,
          o_mediaUrl = mediaUrl message,
          o_mediaType = mediaType message,
          o_mediaSize = mediaSize message,
          o_fileName = fileName message,
          o_thumbnailUrl = thumbnailUrl message,
          o_replyToMessageId = replyToMessageId message,
          o_isDelivered = isDelivered metadata0,
          o_isRead = isRead metadata0,
          o_deliveredAt = deliveredAt metadata0,
          o_readAt = readAt metadata0,
          o_createdAt = createdAt metadata0\<rparr>)"

text \<open>
  The preview labels of the three media types start with a four-character literal that
  the source file holds as the code units U+F8FF U+00FC U+00EC U+2211 (image),
  U+F8FF U+00FC U+00E9 U+2022 (video) and U+F8FF U+00FC U+00EC U+00E9 (file). One or two
  of the four lie outside the representable code units, so each literal is written as the
  bytes the source file holds for it; its length in code units is therefore not the length
  here.
\<close>

definition pictograph :: "MessageType \<Rightarrow> string" where
  "pictograph t =
     (case t of
        IMAGE \<Rightarrow> [CHR 0xEF, CHR 0xA3, CHR 0xBF, CHR 0xC3, CHR 0xBC, CHR 0xC3, CHR 0xAC,
                  CHR 0xE2, CHR 0x88, CHR 0x91]
      | VIDEO \<Rightarrow> [CHR 0xEF, CHR 0xA3, CHR 0xBF, CHR 0xC3, CHR 0xBC, CHR 0xC3, CHR 0xA9,
                  CHR 0xE2, CHR 0x80, CHR 0xA2]
      | FILE \<Rightarrow> [CHR 0xEF, CHR 0xA3, CHR 0xBF, CHR 0xC3, CHR 0xBC, CHR 0xC3, CHR 0xAC,
                 CHR 0xC3, CHR 0xA9]
      | TEXT \<Rightarrow> [])"

definition generateMessagePreview :: "SendMessageParams \<Rightarrow> string" where
  "generateMessagePreview params =
     (case p_messageType params of
        TEXT \<Rightarrow> (case p_content params of None \<Rightarrow> [] | Some c \<Rightarrow> take 100 c)
      | IMAGE \<Rightarrow> pictograph IMAGE @ '' Image''
      | VIDEO \<Rightarrow> pictograph VIDEO @ '' Video''
      | FILE \<Rightarrow> pictograph FILE @ '' '' @
                 (if truthy (p_fileName params) then the (p_fileName params) else ''File''))"

text \<open>
  What one call of \<^verbatim>\<open>sendMessage\<close> takes from its environment: the cipher and the random
  values drawn while encrypting, the clock, the ids the stores generate, and the outcome
  of each of its six calls to a store.
\<close>

record send_env =
  env_cipher :: cipher
  env_salt :: string
  env_iv :: string
  env_now :: timestamp
  newConversationId :: string
  newMongoId :: string
  newMetadataId :: string
  failFindConversation :: bool
  failSaveConversation :: bool
  failReadBlocked :: bool
  failSaveMessage :: bool
  failSaveMetadata :: bool
  failUpdateConversation :: bool

text \<open>The text branch of \<^verbatim>\<open>sendMessage\<close>: validate, sanitize, encrypt, store the ciphertext.\<close>

definition prepare_content ::
  "send_env \<Rightarrow> SendMessageParams \<Rightarrow> CreateMessageData \<Rightarrow> error + CreateMessageData" where
  "prepare_content env params messageData =
     (if truthy (p_content params) \<and> p_messageType params = TEXT
      then (case validateMessageContent (the (p_content params)) of
              Inl e \<Rightarrow> Inl e
            | Inr ok \<Rightarrow>
                (let sanitized = sanitizeMessageContent (the (p_content params)) in
                 case encryptMessage (env_cipher env) (env_salt env) (env_iv env) sanitized of
                   Inl e \<Rightarrow> Inl e
                 | Inr encrypted0 \<Rightarrow> Inr (messageData\<lparr>d_encryptedContent := Some (encrypted encrypted0)\<rparr>)))
      else Inr messageData)"

definition sendMessage :: "send_env \<Rightarrow> SendMessageParams \<Rightarrow> db \<Rightarrow> (error + MessageWithMetadata) \<times> db" where
  "sendMessage env params s =
     (case findOrCreateConversation (failFindConversation env) (failSaveConversation env)
             (newConversationId env) (env_now env) (p_senderId params) (p_receiverId params) s of
        (Inl e, s1) \<Rightarrow> (Inl e, s1)
      | (Inr conversation, s1) \<Rightarrow>
          if isConversationBlocked (failReadBlocked env) (conv_id conversation) s1
          then (Inl BlockedConversation, s1)
          else
            (case prepare_content env params
                    \<lparr>d_conversationId = conv_id conversation,
                     d_senderId = p_senderId params,
                     d_receiverId = p_receiverId params,
                     d_messageType = p_messageType params,
                     d_encryptedContent = None,
                     d_mediaUrl = p_mediaUrl params,
                     d_mediaType = p_mediaType params,
                     d_mediaSize = p_mediaSize params,
                     d_fileName = p_fileName params,
                     d_thumbnailUrl = p_thumbnailUrl params,
                     d_replyToMessageId = p_replyToMessageId params\<rparr> of
               Inl e \<Rightarrow> (Inl e, s1)
             | Inr messageData \<Rightarrow>
                 (case createMessage (failSaveMessage env) (failSaveMetadata env)
                         (newMongoId env) (newMetadataId env) (env_now env) messageData s1 of
                    (Inl e, s2) \<Rightarrow> (Inl e, s2)
                  | (Inr (message, metadata0), s2) \<Rightarrow>
                      (case updateLastMessage (failUpdateConversation env) (env_now env)
                              (conv_id conversation) (generateMessagePreview params)
                              (createdAt metadata0) s2 of
                         (Inl e, s3) \<Rightarrow> (Inl e, s3)
                       | (Inr u, s3) \<Rightarrow> (Inr (formatMessage (env_cipher env) message metadata0), s3)))))"

definition getConversationHistory ::
  "cipher \<Rightarrow> bool \<Rightarrow> bool \<Rightarrow> string \<Rightarrow> int \<Rightarrow> int \<Rightarrow> db \<Rightarrow> error + MessageWithMetadata list \<times> nat" where
  "getConversationHistory cph failMetadata failMessages conversationId0 page limit s =
     (case getMessagesByConversation failMetadata failMessages conversationId0 page limit s of
        Inl e \<Rightarrow> Inl e
      | Inr (messages0, total0) \<Rightarrow> Inr (map (\<lambda>(message, metadata0). formatMessage cph message metadata0) messages0, total0))"

text \<open>
  \<^verbatim>\<open>ChatService.getUnreadCount(userId)\<close> passes no conversation; the other methods of the
  service (mark read, mark delivered, delete, block) call the repository method of the same
  purpose and rethrow what it throws.
\<close>

definition service_getUnreadCount :: "bool \<Rightarrow> string \<Rightarrow> db \<Rightarrow> nat" where
  "service_getUnreadCount fails userId s = getUnreadCount fails userId None s"

section \<open>Sequences of calls, invariants and the wording of the specification\<close>

text \<open>A later call to the message repository, with the values it takes from its environment.\<close>

datatype repo_call =
    CreateMessage bool bool string string timestamp CreateMessageData
  | MarkAsDelivered bool timestamp string
  | MarkAsRead bool timestamp "string list"
  | DeleteMessage bool bool string string

fun run_call :: "repo_call \<Rightarrow> db \<Rightarrow> db" where
  "run_call (CreateMessage f1 f2 i1 i2 now data) s = snd (createMessage f1 f2 i1 i2 now data s)"
| "run_call (MarkAsDelivered f now i) s = snd (markAsDelivered f now i s)"
| "run_call (MarkAsRead f now ids) s = snd (markAsRead f now ids s)"
| "run_call (DeleteMessage f1 f2 i u) s = snd (deleteMessage f1 f2 i u s)"

definition run_calls :: "repo_call list \<Rightarrow> db \<Rightarrow> db" where
  "run_calls cs s = fold run_call cs s"

text \<open>The unordered pair of participants of a row, and the two constraints on the table.\<close>

definition pair_key :: "Conversation \<Rightarrow> string \<times> string" where
  "pair_key r = sort_pair (participant1Id r) (participant2Id r)"

definition one_row_per_pair :: "db \<Rightarrow> bool" where
  "one_row_per_pair s \<longleftrightarrow> distinct (map pair_key (conversations s))"

definition unique_conv_ids :: "db \<Rightarrow> bool" where
  "unique_conv_ids s \<longleftrightarrow> distinct (map conv_id (conversations s))"

text \<open>A row is the conversation between two users, in either order.\<close>

definition between :: "string \<Rightarrow> string \<Rightarrow> Conversation \<Rightarrow> bool" where
  "between a b r \<longleftrightarrow>
     (participant1Id r = a \<and> participant2Id r = b) \<or> (participant1Id r = b \<and> participant2Id r = a)"

text \<open>The one-way flags of a row have not gone back from \<open>r\<close> to \<open>r'\<close>.\<close>

definition flags_kept :: "MessageMetadata \<Rightarrow> MessageMetadata \<Rightarrow> bool" where
  "flags_kept r r' \<longleftrightarrow>
     meta_id r' = meta_id r \<and> mongoMessageId r' = mongoMessageId r
     \<and> (isDelivered r \<longrightarrow> isDelivered r') \<and> (isRead r \<longrightarrow> isRead r') \<and> (isDeleted r \<longrightarrow> isDeleted r')"

text \<open>
  From \<open>s\<close> to \<open>s'\<close> nothing was removed and no flag went back: the rows of \<open>s\<close> are still
  there, in place, with their ids and their one-way flags kept, and so are its documents.
\<close>

definition nothing_lost :: "db \<Rightarrow> db \<Rightarrow> bool" where
  "nothing_lost s s' \<longleftrightarrow>
     length (metadata s) \<le> length (metadata s')
     \<and> list_all2 flags_kept (metadata s) (take (length (metadata s)) (metadata s'))
     \<and> take (length (messages s)) (messages s') = messages s"

text \<open>Every row with the given id carries the deleted flag, and there is such a row.\<close>

definition deleted_in :: "string \<Rightarrow> db \<Rightarrow> bool" where
  "deleted_in messageId s \<longleftrightarrow>
     list_ex (\<lambda>r. meta_id r = messageId) (metadata s)
     \<and> list_all (\<lambda>r. meta_id r = messageId \<longrightarrow> isDeleted r) (metadata s)"


text \<open>
  The unread count in the words of the specification: the rows whose receiver is the user,
  that are neither read nor deleted, of the given conversation when one is given.
\<close>

definition unread_count_spec :: "string \<Rightarrow> string option \<Rightarrow> MessageMetadata list \<Rightarrow> nat" where
  "unread_count_spec userId conversationId0 rows =
     length (filter (\<lambda>r. receiverId r = userId \<and> \<not> isRead r \<and> \<not> isDeleted r
                          \<and> (case conversationId0 of None \<Rightarrow> True | Some c \<Rightarrow> conversationId r = c)) rows)"

text \<open>The media fields of a stored message are all absent.\<close>

definition no_media :: "IMessage \<Rightarrow> bool" where
  "no_media m \<longleftrightarrow>
     mediaUrl m = None \<and> mediaType m = None \<and> mediaSize m = None \<and> fileName m = None
     \<and> thumbnailUrl m = None"

text \<open>
  \<^verbatim>\<open>decryptMessage(encryptMessage(plaintext).encrypted)\<close>: the round trip through the codec.
\<close>

definition decrypt_encrypted :: "cipher \<Rightarrow> string \<Rightarrow> string \<Rightarrow> string \<Rightarrow> error + string" where
  "decrypt_encrypted cph salt iv0 plaintext =
     (case encryptMessage cph salt iv0 plaintext of
        Inl e \<Rightarrow> Inl e
      | Inr e \<Rightarrow> decryptMessage cph (encrypted e))"

text \<open>The media fields of a stored message are those the caller of \<open>sendMessage\<close> passed.\<close>

definition media_as_sent :: "SendMessageParams \<Rightarrow> IMessage \<Rightarrow> bool" where
  "media_as_sent p m \<longleftrightarrow>
     mediaUrl m = p_mediaUrl p \<and> mediaType m = p_mediaType p \<and> mediaSize m = p_mediaSize p
     \<and> fileName m = p_fileName p \<and> thumbnailUrl m = p_thumbnailUrl p"

text \<open>A content is blank: empty, or white space only.\<close>

definition blank :: "string \<Rightarrow> bool" where
  "blank c \<longleftrightarrow> list_all is_js_space c"

section \<open>Concrete stores and calls\<close>

text \<open>
  Alice and Bob: their conversation row and one text message from Bob to Alice (document
  and metadata row).
\<close>

definition alice_bob :: Conversation where
  "alice_bob = \<lparr>conv_id = ''c1'', participant1Id = ''alice'', participant2Id = ''bob'',
                 lastMessageAt = None, lastMessagePreview = None, isBlocked = False,
                 blockedBy = None, conv_createdAt = 1, conv_updatedAt = 1\<rparr>"

definition first_message :: IMessage where
  "first_message = \<lparr>m_id = ''o0'', m_conversationId = ''c1'', m_senderId = ''bob'',
                     m_receiverId = ''alice'', m_messageType = TEXT,
                     encryptedContent = Some ''sHi'', mediaUrl = None, mediaType = None,
                     mediaSize = None, fileName = None, thumbnailUrl = None,
                     replyToMessageId = None, m_createdAt = 3, m_updatedAt = 3\<rparr>"

definition first_row :: MessageMetadata where
  "first_row = \<lparr>meta_id = ''m0'', conversationId = ''c1'', mongoMessageId = ''o0'',
                 senderId = ''bob'', receiverId = ''alice'', messageType = TEXT,
                 isDelivered = False, isRead = False, deliveredAt = None, readAt = None,
                 isDeleted = False, createdAt = 3\<rparr>"


definition chat_db :: db where
  "chat_db = \<lparr>conversations = [alice_bob], metadata = [first_row], messages = [first_message]\<rparr>"

text \<open>
  The same store after Alice has blocked the conversation at time 5, and the row it then
  holds.
\<close>

definition blocked_db :: db where
  "blocked_db = snd (blockConversation False 5 ''c1'' ''alice'' chat_db)"

definition alice_bob_blocked :: Conversation where
  "alice_bob_blocked = alice_bob\<lparr>isBlocked := True, blockedBy := Some ''alice'', conv_updatedAt := 5\<rparr>"

text \<open>
  A second message, from Alice to Bob, and a store whose first document no longer decrypts
  to anything (under the stand-in cipher its ciphertext holds the salt and nothing else).
\<close>

definition second_message :: IMessage where
  "second_message = first_message\<lparr>m_id := ''o1'', m_senderId := ''alice'', m_receiverId := ''bob'',
                                   encryptedContent := Some ''sHello'', m_createdAt := 4,
                                   m_updatedAt := 4\<rparr>"

definition second_row :: MessageMetadata where
  "second_row = first_row\<lparr>meta_id := ''m1'', mongoMessageId := ''o1'', senderId := ''alice'',
                           receiverId := ''bob'', createdAt := 4\<rparr>"

definition corrupted_db :: db where
  "corrupted_db = \<lparr>conversations = [alice_bob], metadata = [first_row, second_row],
                    messages = [first_message\<lparr>encryptedContent := Some ''s''\<rparr>, second_message]\<rparr>"

text \<open>
  An environment in which every store call succeeds, and Bob's next message to Alice.
\<close>

definition calm_env :: send_env where
  "calm_env = \<lparr>env_cipher = toy_cipher, env_salt = ''s'', env_iv = ''iv'', env_now = 7,
                newConversationId = ''c2'', newMongoId = ''o1'', newMetadataId = ''m1'',
                failFindConversation = False, failSaveConversation = False,
                failReadBlocked = False, failSaveMessage = False, failSaveMetadata = False,
                failUpdateConversation = False\<rparr>"

definition hello :: SendMessageParams where
  "hello = \<lparr>p_senderId = ''bob'', p_receiverId = ''alice'', p_messageType = TEXT,
             p_content = Some ''Hello'', p_mediaUrl = None, p_mediaType = None,
             p_mediaSize = None, p_fileName = None, p_thumbnailUrl = None,
             p_replyToMessageId = None\<rparr>"

section \<open>The codec: sanitizing, encrypting, decrypting\<close>

lemma replace_all_absent: "c \<notin> set s \<Longrightarrow> replace_all c r s = s"
  by (induction s) (auto simp: replace_all_def)

lemma set_replace_all: "set (replace_all c r s) \<subseteq> (set s - {c}) \<union> set r"
  by (induction s) (auto simp: replace_all_def)

lemma replace_all_Nil_iff: "r \<noteq> [] \<Longrightarrow> replace_all c r s = [] \<longleftrightarrow> s = []"
  by (cases s) (auto simp: replace_all_def)

text \<open>None of the five escaped characters survives, since no replacement contains one.\<close>

lemma sanitize_escapes_all:
  "CHR ''<'' \<notin> set (sanitizeMessageContent x) \<and> CHR ''>'' \<notin> set (sanitizeMessageContent x)
   \<and> CHR 0x22 \<notin> set (sanitizeMessageContent x) \<and> CHR 0x27 \<notin> set (sanitizeMessageContent x)
   \<and> CHR ''/'' \<notin> set (sanitizeMessageContent x)"
proof -
  let ?a = "replace_all CHR ''<'' ''&lt;'' x"
  let ?b = "replace_all CHR ''>'' ''&gt;'' ?a"
  let ?c = "replace_all CHR 0x22 ''&quot;'' ?b"
  let ?d = "replace_all CHR 0x27 ''&#x27;'' ?c"
  let ?e = "replace_all CHR ''/'' ''&#x2F;'' ?d"
  have a: "CHR ''<'' \<notin> set ?a"
    using set_replace_all[of "CHR ''<''" "''&lt;''" x] by auto
  have b: "CHR ''<'' \<notin> set ?b" "CHR ''>'' \<notin> set ?b"
    using a set_replace_all[of "CHR ''>''" "''&gt;''" ?a] by auto
  have c: "CHR ''<'' \<notin> set ?c" "CHR ''>'' \<notin> set ?c" "CHR 0x22 \<notin> set ?c"
    using b set_replace_all[of "CHR 0x22" "''&quot;''" ?b] by auto
  have d: "CHR ''<'' \<notin> set ?d" "CHR ''>'' \<notin> set ?d" "CHR 0x22 \<notin> set ?d" "CHR 0x27 \<notin> set ?d"
    using c set_replace_all[of "CHR 0x27" "''&#x27;''" ?c] by auto
  have e: "CHR ''<'' \<notin> set ?e" "CHR ''>'' \<notin> set ?e" "CHR 0x22 \<notin> set ?e" "CHR 0x27 \<notin> set ?e"
    "CHR ''/'' \<notin> set ?e"
    using d set_replace_all[of "CHR ''/''" "''&#x2F;''" ?d] by auto
  show ?thesis using e by (simp add: sanitizeMessageContent_def)
qed

lemma sanitize_idempotent:
  "sanitizeMessageContent (sanitizeMessageContent x) = sanitizeMessageContent x"
  using sanitize_escapes_all[of x]
  by (subst (1) sanitizeMessageContent_def) (simp add: replace_all_absent)

lemma sanitize_Nil_iff: "sanitizeMessageContent x = [] \<longleftrightarrow> x = []"
  by (simp add: sanitizeMessageContent_def replace_all_Nil_iff)

text \<open>Whatever the cipher, \<open>decryptMessage\<close> never returns the empty string.\<close>

lemma decryptMessage_nonempty: "decryptMessage cph c = Inr p \<Longrightarrow> p \<noteq> []"
  by (auto simp: decryptMessage_def split: option.splits if_splits)

lemma decrypt_encrypted_empty: "decrypt_encrypted cph salt iv0 [] \<noteq> Inr []"
  by (auto simp: decrypt_encrypted_def dest: decryptMessage_nonempty split: sum.splits)

lemma toy_cipher_correct: "cipher_correct toy_cipher"
  by (simp add: cipher_correct_def toy_cipher_def)

text \<open>
  Claim C6, as stated, fails at the empty text: sanitizing it gives the empty string, and
  \<open>decryptMessage\<close> throws on an empty plaintext instead of returning it
  (\<open>decrypt_encrypted_empty\<close> shows this for every cipher; here with the stand-in).
\<close>

theorem codec_roundtrip_empty_counterexample:
  "decrypt_encrypted toy_cipher ''s'' ''iv'' (sanitizeMessageContent []) = Inl DecryptFailed
   \<and> decrypt_encrypted toy_cipher ''s'' ''iv'' (sanitizeMessageContent [])
       \<noteq> Inr (sanitizeMessageContent [])"
  by (simp add: decrypt_encrypted_def encryptMessage_def decryptMessage_def toy_cipher_def
      sanitizeMessageContent_def replace_all_def)

text \<open>
  Claim C6, amended: for every non-empty text, and a cipher that decrypts what it
  encrypts, decrypting the encryption of the sanitized text returns the sanitized text;
  and sanitizing is idempotent on every string.
\<close>

theorem codec_roundtrip_nonempty:
  assumes "cipher_correct cph" and "text \<noteq> []"
  shows "decrypt_encrypted cph salt iv0 (sanitizeMessageContent text)
           = Inr (sanitizeMessageContent text)
         \<and> sanitizeMessageContent (sanitizeMessageContent x) = sanitizeMessageContent x"
proof -
  from assms(1) obtain c where c: "enc cph salt (sanitizeMessageContent text) = Some c"
    "dec cph c = Some (sanitizeMessageContent text)"
    unfolding cipher_correct_def by blast
  have ne: "sanitizeMessageContent text \<noteq> []"
    using assms(2) by (simp add: sanitize_Nil_iff)
  show ?thesis
    using c ne
    by (simp add: decrypt_encrypted_def encryptMessage_def decryptMessage_def sanitize_idempotent)
qed

theorem codec_roundtrip_nonempty_witness:
  "cipher_correct toy_cipher \<and> ''<b>'' \<noteq> []
   \<and> sanitizeMessageContent ''<b>'' = ''&lt;b&gt;''
   \<and> decrypt_encrypted toy_cipher ''s'' ''iv'' (sanitizeMessageContent ''<b>'') = Inr ''&lt;b&gt;''
   \<and> sanitizeMessageContent (sanitizeMessageContent ''a/b'') = sanitizeMessageContent ''a/b''"
proof -
  have s: "sanitizeMessageContent ''<b>'' = ''&lt;b&gt;''"
    by (simp add: sanitizeMessageContent_def replace_all_def)
  have ne: "''<b>'' \<noteq> []" by simp
  show ?thesis
    using codec_roundtrip_nonempty [OF toy_cipher_correct ne, of "''s''" "''iv''" "''a/b''"]
      toy_cipher_correct s
    by simp
qed

section \<open>Resolving a conversation\<close>


lemma sort_pair_cases: "sort_pair a b = (a, b) \<or> sort_pair a b = (b, a)"
  by (auto simp: sort_pair_def)

lemma sort_pair_between: "sort_pair a b = (x, y) \<Longrightarrow> between x y r \<longleftrightarrow> between a b r"
  by (auto simp: sort_pair_def between_def split: if_splits)

lemma pair_key_between: "sort_pair a b = pair_key r \<longleftrightarrow> between a b r"
  by (auto simp: pair_key_def sort_pair_def between_def split: if_splits)


text \<open>
  The lookup matches either order, so it does not depend on the sorting; only the row
  that is created does.
\<close>

lemma findOrCreateConversation_alt:
  "findOrCreateConversation failFind failSave newId now a b s =
     (if failFind then (Inl StoreError, s)
      else case find (between a b) (conversations s) of
             Some c \<Rightarrow> (Inr c, s)
           | None \<Rightarrow> save_conversation failSave
                 \<lparr>conv_id = newId, participant1Id = fst (sort_pair a b),
                  participant2Id = snd (sort_pair a b),
                  lastMessageAt = None, lastMessagePreview = None, isBlocked = False,
                  blockedBy = None, conv_createdAt = now, conv_updatedAt = now\<rparr> s)"
proof -
  obtain x y where xy: "sort_pair a b = (x, y)" by (cases "sort_pair a b")
  have "(\<lambda>r. (participant1Id r = x \<and> participant2Id r = y)
             \<or> (participant1Id r = y \<and> participant2Id r = x)) = between a b"
    using sort_pair_between[OF xy] by (auto simp: between_def fun_eq_iff)
  then show ?thesis
    by (simp add: findOrCreateConversation_def xy split: option.splits)
qed




lemma save_conversation_conversations:
  "conversations (snd (save_conversation f c s)) = conversations s
   \<or> (conversations (snd (save_conversation f c s)) = conversations s @ [c]
       \<and> conv_id c \<notin> conv_id ` set (conversations s))"
  by (auto simp: save_conversation_def list_ex_iff)

lemma findOrCreateConversation_one_row:
  assumes "one_row_per_pair s"
  shows "one_row_per_pair (snd (findOrCreateConversation ff fs nid now a b s))"
proof (cases "ff \<or> find (between a b) (conversations s) \<noteq> None")
  case True
  with assms show ?thesis by (auto simp: findOrCreateConversation_alt)
next
  case False
  let ?row = "\<lparr>conv_id = nid, participant1Id = fst (sort_pair a b),
               participant2Id = snd (sort_pair a b),
               lastMessageAt = None, lastMessagePreview = None, isBlocked = False,
               blockedBy = None, conv_createdAt = now, conv_updatedAt = now\<rparr>"
  from False have none: "\<forall>r\<in>set (conversations s). \<not> between a b r"
    by (simp add: find_None_iff)
  have key: "pair_key ?row = sort_pair a b"
    using sort_pair_cases[of a b] by (auto simp: pair_key_def sort_pair_def split: if_splits)
  have "pair_key ?row \<notin> set (map pair_key (conversations s))"
    using none by (auto simp: key pair_key_between)
  with assms have "distinct (map pair_key (conversations s @ [?row]))"
    by (simp add: one_row_per_pair_def)
  moreover have "snd (findOrCreateConversation ff fs nid now a b s) = snd (save_conversation fs ?row s)"
    using False by (simp add: findOrCreateConversation_alt)
  ultimately show ?thesis
    using save_conversation_conversations[of fs ?row s] assms
    by (auto simp: one_row_per_pair_def)
qed

lemma findOrCreateConversation_unique_ids:
  assumes "unique_conv_ids s"
  shows "unique_conv_ids (snd (findOrCreateConversation ff fs nid now a b s))"
proof -
  let ?row = "\<lparr>conv_id = nid, participant1Id = fst (sort_pair a b),
               participant2Id = snd (sort_pair a b),
               lastMessageAt = None, lastMessagePreview = None, isBlocked = False,
               blockedBy = None, conv_createdAt = now, conv_updatedAt = now\<rparr>"
  show ?thesis
    using save_conversation_conversations[of fs ?row s] assms
    by (auto simp: findOrCreateConversation_alt unique_conv_ids_def split: option.splits)
qed







section \<open>Sending a message\<close>

subsection \<open>Finding the row of a pair, or of an id\<close>

lemma find_unique_key:
  assumes "distinct (map f xs)" "x \<in> set xs" "P x" "\<forall>y\<in>set xs. P y \<longrightarrow> f y = f x"
  shows "find P xs = Some x"
  using assms
proof (induction xs)
  case Nil
  then show ?case by simp
next
  case (Cons z zs)
  show ?case
  proof (cases "P z")
    case True
    with Cons.prems(4) have fz: "f z = f x" by simp
    have "z = x"
    proof (rule ccontr)
      assume "z \<noteq> x"
      with Cons.prems(2) have "x \<in> set zs" by simp
      then have "f x \<in> f ` set zs" by (rule imageI)
      with fz Cons.prems(1) show False by simp
    qed
    with True show ?thesis by simp
  next
    case False
    with Cons.prems(2,3) have xz: "x \<in> set zs" by auto
    have d: "distinct (map f zs)" using Cons.prems(1) by simp
    have a: "\<forall>y\<in>set zs. P y \<longrightarrow> f y = f x" using Cons.prems(4) by simp
    have "find P zs = Some x" by (rule Cons.IH[OF d xz Cons.prems(3) a])
    with False show ?thesis by simp
  qed
qed

lemma find_conversation_between:
  assumes "one_row_per_pair s" "c \<in> set (conversations s)" "between a b c"
  shows "find (between a b) (conversations s) = Some c"
proof (rule find_unique_key[where f = pair_key])
  show "distinct (map pair_key (conversations s))" using assms(1) by (simp add: one_row_per_pair_def)
  show "c \<in> set (conversations s)" by fact
  show "between a b c" by fact
  show "\<forall>y\<in>set (conversations s). between a b y \<longrightarrow> pair_key y = pair_key c"
    using assms(3) by (simp add: pair_key_between[symmetric])
qed

lemma find_conversation_by_id:
  assumes "unique_conv_ids s" "c \<in> set (conversations s)"
  shows "find (\<lambda>r. conv_id r = conv_id c) (conversations s) = Some c"
  using assms by (intro find_unique_key[where f = conv_id]) (simp_all add: unique_conv_ids_def)

lemma findOrCreateConversation_existing:
  assumes "one_row_per_pair s" "c \<in> set (conversations s)" "between a b c"
  shows "findOrCreateConversation False fs nid now a b s = (Inr c, s)"
  using find_conversation_between[OF assms] by (simp add: findOrCreateConversation_alt)

lemma isConversationBlocked_row:
  assumes "unique_conv_ids s" "c \<in> set (conversations s)"
  shows "isConversationBlocked fails (conv_id c) s = (\<not> fails \<and> isBlocked c)"
  using find_conversation_by_id[OF assms] by (simp add: isConversationBlocked_def)

lemma blocked_db_eq: "blocked_db = chat_db\<lparr>conversations := [alice_bob_blocked]\<rparr>"
  by (simp add: blocked_db_def blockConversation_def update_conversation_def chat_db_def
      alice_bob_def alice_bob_blocked_def)

subsection \<open>What each step does to the two message stores\<close>

lemma findOrCreateConversation_messages:
  "messages (snd (findOrCreateConversation ff fs nid now a b s)) = messages s
   \<and> metadata (snd (findOrCreateConversation ff fs nid now a b s)) = metadata s"
  by (simp add: findOrCreateConversation_alt save_conversation_def split: option.splits)

lemma updateLastMessage_messages:
  "messages (snd (updateLastMessage f now cid pv ts s)) = messages s
   \<and> metadata (snd (updateLastMessage f now cid pv ts s)) = metadata s"
  by (simp add: updateLastMessage_def update_conversation_def)

lemma createMessage_Inr:
  assumes "createMessage f1 f2 i1 i2 now d s = (Inr (m, r), s2)"
  shows "messages s2 = messages s @ [m] \<and> metadata s2 = metadata s @ [r]
         \<and> conversations s2 = conversations s
         \<and> m_messageType m = d_messageType d \<and> encryptedContent m = d_encryptedContent d
         \<and> mediaUrl m = d_mediaUrl d \<and> mediaType m = d_mediaType d \<and> mediaSize m = d_mediaSize d
         \<and> fileName m = d_fileName d \<and> thumbnailUrl m = d_thumbnailUrl d
         \<and> conversationId r = d_conversationId d \<and> senderId r = d_senderId d
         \<and> receiverId r = d_receiverId d \<and> mongoMessageId r = m_id m
         \<and> m_id m = i1 \<and> meta_id r = i2"
  using assms
  by (auto simp: createMessage_def save_message_def save_metadata_def split: if_splits)

lemma createMessage_messages:
  "messages (snd (createMessage f1 f2 i1 i2 now d s)) = messages s
   \<or> (\<exists>m. messages (snd (createMessage f1 f2 i1 i2 now d s)) = messages s @ [m]
        \<and> m_messageType m = d_messageType d \<and> encryptedContent m = d_encryptedContent d
        \<and> mediaUrl m = d_mediaUrl d \<and> mediaType m = d_mediaType d \<and> mediaSize m = d_mediaSize d
        \<and> fileName m = d_fileName d \<and> thumbnailUrl m = d_thumbnailUrl d)"
  by (simp add: createMessage_def save_message_def save_metadata_def)

lemma createMessage_succeeds:
  assumes "i1 \<notin> m_id ` set (messages s)" "i2 \<notin> meta_id ` set (metadata s)"
  shows "\<exists>m r s2. createMessage False False i1 i2 now d s = (Inr (m, r), s2)"
  using assms by (auto simp: createMessage_def save_message_def save_metadata_def list_ex_iff image_iff)

lemma prepare_content_Inr:
  assumes "prepare_content env p d = Inr d'"
  shows "d_conversationId d' = d_conversationId d \<and> d_senderId d' = d_senderId d
         \<and> d_receiverId d' = d_receiverId d
         \<and> d_messageType d' = d_messageType d \<and> d_mediaUrl d' = d_mediaUrl d
         \<and> d_mediaType d' = d_mediaType d \<and> d_mediaSize d' = d_mediaSize d
         \<and> d_fileName d' = d_fileName d \<and> d_thumbnailUrl d' = d_thumbnailUrl d
         \<and> (d_encryptedContent d' = d_encryptedContent d \<or> p_messageType p = TEXT)"
  using assms
  by (auto simp: prepare_content_def split: if_splits sum.splits)


lemma updateLastMessage_messagesD:
  "updateLastMessage f now cid pv ts s = (r, s3) \<Longrightarrow> messages s3 = messages s \<and> metadata s3 = metadata s"
  using updateLastMessage_messages[of f now cid pv ts s] by simp

lemma createMessage_Inr_conv:
  assumes "createMessage f1 f2 i1 i2 now d s = (Inr (m, r), s2)"
  shows "m_conversationId m = d_conversationId d"
  using assms
  by (auto simp: createMessage_def save_message_def save_metadata_def split: if_splits)

lemma prepare_content_accepts:
  assumes "truthy (p_content p) \<and> p_messageType p = TEXT \<longrightarrow>
             validateMessageContent (the (p_content p)) = Inr True
             \<and> enc (env_cipher env) (env_salt env) (sanitizeMessageContent (the (p_content p))) \<noteq> None"
  shows "\<exists>md. prepare_content env p d = Inr md"
  using assms by (auto simp: prepare_content_def encryptMessage_def split: option.splits)

lemma updateLastMessage_ok:
  "\<exists>s3. updateLastMessage False now cid pv ts s = (Inr (), s3)
        \<and> messages s3 = messages s \<and> metadata s3 = metadata s"
  by (simp add: updateLastMessage_def update_conversation_def)

lemma sendMessage_resolved:
  assumes "findOrCreateConversation (failFindConversation env) (failSaveConversation env)
      (newConversationId env) (env_now env) (p_senderId p) (p_receiverId p) s = (Inr conv, s1)"
    and "\<not> isConversationBlocked (failReadBlocked env) (conv_id conv) s1"
  shows "sendMessage env p s =
    (case prepare_content env p
                    \<lparr>d_conversationId = conv_id conv,
                     d_senderId = p_senderId p,
                     d_receiverId = p_receiverId p,
                     d_messageType = p_messageType p,
                     d_encryptedContent = None,
                     d_mediaUrl = p_mediaUrl p,
                     d_mediaType = p_mediaType p,
                     d_mediaSize = p_mediaSize p,
                     d_fileName = p_fileName p,
                     d_thumbnailUrl = p_thumbnailUrl p,
                     d_replyToMessageId = p_replyToMessageId p\<rparr> of
               Inl e \<Rightarrow> (Inl e, s1)
             | Inr messageData \<Rightarrow>
                 (case createMessage (failSaveMessage env) (failSaveMetadata env)
                         (newMongoId env) (newMetadataId env) (env_now env) messageData s1 of
                    (Inl e, s2) \<Rightarrow> (Inl e, s2)
                  | (Inr (message, metadata0), s2) \<Rightarrow>
                      (case updateLastMessage (failUpdateConversation env) (env_now env)
                              (conv_id conv) (generateMessagePreview p)
                              (createdAt metadata0) s2 of
                         (Inl e, s3) \<Rightarrow> (Inl e, s3)
                       | (Inr u, s3) \<Rightarrow> (Inr (formatMessage (env_cipher env) message metadata0), s3))))"
  using assms by (simp add: sendMessage_def)

subsection \<open>The two constraints on the conversations table are kept\<close>

text \<open>
  Blocking and sending change no participant and no id, so every state reached from the
  empty store by these calls has at most one row per unordered pair, and unique ids.
\<close>

lemma update_conversation_keys:
  assumes "\<And>r. participant1Id (f r) = participant1Id r" "\<And>r. participant2Id (f r) = participant2Id r"
    "\<And>r. conv_id (f r) = conv_id r"
  shows "map pair_key (conversations (snd (update_conversation fails now cid f s)))
           = map pair_key (conversations s)
         \<and> map conv_id (conversations (snd (update_conversation fails now cid f s)))
           = map conv_id (conversations s)"
  using assms by (simp add: update_conversation_def pair_key_def comp_def cong: map_cong)

lemma blockConversation_invariants:
  "one_row_per_pair (snd (blockConversation fails now cid u s)) = one_row_per_pair s
   \<and> unique_conv_ids (snd (blockConversation fails now cid u s)) = unique_conv_ids s"
  using update_conversation_keys[of "\<lambda>r. r\<lparr>isBlocked := True, blockedBy := Some u\<rparr>" fails now cid s]
  by (simp add: blockConversation_def one_row_per_pair_def unique_conv_ids_def)

lemma updateLastMessage_keys:
  "updateLastMessage fails now cid pv ts s = (r, s3) \<Longrightarrow>
     map pair_key (conversations s3) = map pair_key (conversations s)
     \<and> map conv_id (conversations s3) = map conv_id (conversations s)"
  using update_conversation_keys[of "\<lambda>r. r\<lparr>lastMessagePreview := Some (take 500 pv), lastMessageAt := Some ts\<rparr>" fails now cid s]
  by (simp add: updateLastMessage_def)

lemma createMessage_conversations:
  "createMessage f1 f2 i1 i2 now d s = (r, s2) \<Longrightarrow> conversations s2 = conversations s"
  by (auto simp: createMessage_def save_message_def save_metadata_def split: if_splits)

lemma sendMessage_keys:
  "map pair_key (conversations (snd (sendMessage env p s)))
     = map pair_key (conversations (snd (findOrCreateConversation (failFindConversation env)
         (failSaveConversation env) (newConversationId env) (env_now env)
         (p_senderId p) (p_receiverId p) s)))
   \<and> map conv_id (conversations (snd (sendMessage env p s)))
     = map conv_id (conversations (snd (findOrCreateConversation (failFindConversation env)
         (failSaveConversation env) (newConversationId env) (env_now env)
         (p_senderId p) (p_receiverId p) s)))"
  by (auto simp: sendMessage_def split: prod.splits sum.splits
      dest!: createMessage_conversations updateLastMessage_keys)

lemma sendMessage_invariants:
  assumes "one_row_per_pair s" "unique_conv_ids s"
  shows "one_row_per_pair (snd (sendMessage env p s)) \<and> unique_conv_ids (snd (sendMessage env p s))"
  using findOrCreateConversation_one_row[OF assms(1), of "failFindConversation env"
      "failSaveConversation env" "newConversationId env" "env_now env" "p_senderId p" "p_receiverId p"]
    findOrCreateConversation_unique_ids[OF assms(2), of "failFindConversation env"
      "failSaveConversation env" "newConversationId env" "env_now env" "p_senderId p" "p_receiverId p"]
  by (simp add: one_row_per_pair_def unique_conv_ids_def sendMessage_keys)

subsection \<open>The blocked check\<close>

text \<open>
  Claim C2, as stated, fails: the read of the blocked flag can fail, and then
  \<open>isConversationBlocked\<close> answers \<open>False\<close>. Bob sends "Hello" into the conversation Alice
  has blocked while that read fails: the send returns a message, and a document and a
  metadata row have been added.
\<close>

theorem sendMessage_blocked_counterexample:
  "conversations blocked_db = [alice_bob_blocked] \<and> isBlocked alice_bob_blocked
   \<and> \<not> isl (fst (sendMessage (calm_env\<lparr>failReadBlocked := True\<rparr>) hello blocked_db))
   \<and> length (messages blocked_db) = 1 \<and> length (metadata blocked_db) = 1
   \<and> length (messages (snd (sendMessage (calm_env\<lparr>failReadBlocked := True\<rparr>) hello blocked_db))) = 2
   \<and> length (metadata (snd (sendMessage (calm_env\<lparr>failReadBlocked := True\<rparr>) hello blocked_db))) = 2"
  by code_simp

text \<open>
  Claim C2, amended: for every send into a conversation whose blocked flag is set, when
  the read of the blocked flag succeeds, \<open>sendMessage\<close> fails with the blocked-conversation
  error (with the store's error when the lookup of the conversation fails) and leaves the
  whole state unchanged, so no document and no metadata row is written. The two
  invariants say that the row is the one the lookups find.
\<close>

theorem sendMessage_blocked_rejected:
  assumes "c \<in> set (conversations s)"
    and "between (p_senderId p) (p_receiverId p) c"
    and "isBlocked c"
    and "one_row_per_pair s" and "unique_conv_ids s"
    and "\<not> failReadBlocked env"
  shows "sendMessage env p s =
           (Inl (if failFindConversation env then StoreError else BlockedConversation), s)"
proof (cases "failFindConversation env")
  case True
  then show ?thesis
    by (simp add: sendMessage_def findOrCreateConversation_alt)
next
  case False
  have 1: "findOrCreateConversation (failFindConversation env) (failSaveConversation env)
             (newConversationId env) (env_now env) (p_senderId p) (p_receiverId p) s = (Inr c, s)"
    using findOrCreateConversation_existing[OF assms(4,1,2)] False by simp
  have 2: "isConversationBlocked (failReadBlocked env) (conv_id c) s"
    using isConversationBlocked_row[OF assms(5,1)] assms(3,6) by simp
  show ?thesis unfolding sendMessage_def 1 using 2 False by simp
qed

theorem sendMessage_blocked_rejected_witness:
  "alice_bob_blocked \<in> set (conversations blocked_db)
   \<and> between (p_senderId hello) (p_receiverId hello) alice_bob_blocked
   \<and> isBlocked alice_bob_blocked
   \<and> one_row_per_pair blocked_db \<and> unique_conv_ids blocked_db
   \<and> \<not> failReadBlocked calm_env
   \<and> sendMessage calm_env hello blocked_db = (Inl BlockedConversation, blocked_db)"
proof -
  have a: "alice_bob_blocked \<in> set (conversations blocked_db)"
    by (simp add: blocked_db_eq)
  have b: "between (p_senderId hello) (p_receiverId hello) alice_bob_blocked"
    by (simp add: between_def hello_def alice_bob_def alice_bob_blocked_def)
  have c: "isBlocked alice_bob_blocked"
    by (simp add: alice_bob_blocked_def)
  have d: "one_row_per_pair blocked_db"
    by (simp add: one_row_per_pair_def blocked_db_eq)
  have e: "unique_conv_ids blocked_db"
    by (simp add: unique_conv_ids_def blocked_db_eq)
  have f: "\<not> failReadBlocked calm_env" "\<not> failFindConversation calm_env"
    by (simp_all add: calm_env_def)
  show ?thesis
    using sendMessage_blocked_rejected [OF a b c d e f(1)] a b c d e f by simp
qed

text \<open>
  Claim C10: \<open>isConversationBlocked\<close> returns a truth value in every case, and \<open>False\<close>
  when the read fails. So when a conversation is blocked, the read of its flag fails and
  the other store calls are accepted (unused ids, content that validates and encrypts),
  \<open>sendMessage\<close> returns a message and has appended a document and a metadata row of that
  conversation.
\<close>

theorem blocked_read_failure_lets_message_through:
  assumes "c \<in> set (conversations s)"
    and "between (p_senderId p) (p_receiverId p) c"
    and "isBlocked c"
    and "one_row_per_pair s" and "unique_conv_ids s"
    and "\<not> failFindConversation env" and "failReadBlocked env"
    and "\<not> failSaveMessage env" and "\<not> failSaveMetadata env" and "\<not> failUpdateConversation env"
    and "newMongoId env \<notin> m_id ` set (messages s)"
    and "newMetadataId env \<notin> meta_id ` set (metadata s)"
    and "truthy (p_content p) \<and> p_messageType p = TEXT \<longrightarrow>
             validateMessageContent (the (p_content p)) = Inr True
             \<and> enc (env_cipher env) (env_salt env) (sanitizeMessageContent (the (p_content p))) \<noteq> None"
  shows "isConversationBlocked True cid s0 = False
    \<and> \<not> isl (fst (sendMessage env p s))
    \<and> (\<exists>m r. messages (snd (sendMessage env p s)) = messages s @ [m]
             \<and> metadata (snd (sendMessage env p s)) = metadata s @ [r]
             \<and> m_conversationId m = conv_id c \<and> conversationId r = conv_id c)"
proof -
  let ?d = "\<lparr>d_conversationId = conv_id c,
                     d_senderId = p_senderId p,
                     d_receiverId = p_receiverId p,
                     d_messageType = p_messageType p,
                     d_encryptedContent = None,
                     d_mediaUrl = p_mediaUrl p,
                     d_mediaType = p_mediaType p,
                     d_mediaSize = p_mediaSize p,
                     d_fileName = p_fileName p,
                     d_thumbnailUrl = p_thumbnailUrl p,
                     d_replyToMessageId = p_replyToMessageId p\<rparr>"
  have 1: "findOrCreateConversation (failFindConversation env) (failSaveConversation env)
             (newConversationId env) (env_now env) (p_senderId p) (p_receiverId p) s = (Inr c, s)"
    using findOrCreateConversation_existing[OF assms(4,1,2)] assms(6) by simp
  have 2: "\<not> isConversationBlocked (failReadBlocked env) (conv_id c) s"
    using assms(7) by (simp add: isConversationBlocked_def)
  obtain md where md: "prepare_content env p ?d = Inr md"
    using prepare_content_accepts[OF assms(13)] by blast
  obtain m r s2 where cm: "createMessage (failSaveMessage env) (failSaveMetadata env)
        (newMongoId env) (newMetadataId env) (env_now env) md s = (Inr (m, r), s2)"
    using createMessage_succeeds[OF assms(11,12)] assms(8,9) by (metis (full_types))
  note cmf = createMessage_Inr[OF cm] createMessage_Inr_conv[OF cm] prepare_content_Inr[OF md]
  obtain s3 where up: "updateLastMessage (failUpdateConversation env) (env_now env) (conv_id c)
        (generateMessagePreview p) (createdAt r) s2 = (Inr (), s3)"
      "messages s3 = messages s2" "metadata s3 = metadata s2"
    using updateLastMessage_ok assms(10) by (metis (full_types))
  have res: "sendMessage env p s = (Inr (formatMessage (env_cipher env) m r), s3)"
    by (simp add: sendMessage_resolved[OF 1 2] md cm up)
  have "messages s3 = messages s @ [m] \<and> metadata s3 = metadata s @ [r]
        \<and> m_conversationId m = conv_id c \<and> conversationId r = conv_id c"
    using cmf up by simp
  then show ?thesis
    using res by (auto simp: isConversationBlocked_def)
qed

theorem blocked_read_failure_lets_message_through_witness:
  "alice_bob_blocked \<in> set (conversations blocked_db) \<and> isBlocked alice_bob_blocked
   \<and> failReadBlocked (calm_env\<lparr>failReadBlocked := True\<rparr>)
   \<and> isConversationBlocked True ''c1'' blocked_db = False
   \<and> \<not> isl (fst (sendMessage (calm_env\<lparr>failReadBlocked := True\<rparr>) hello blocked_db))
   \<and> (\<exists>m r. messages (snd (sendMessage (calm_env\<lparr>failReadBlocked := True\<rparr>) hello blocked_db))
               = messages blocked_db @ [m]
            \<and> metadata (snd (sendMessage (calm_env\<lparr>failReadBlocked := True\<rparr>) hello blocked_db))
               = metadata blocked_db @ [r]
            \<and> m_conversationId m = ''c1'' \<and> conversationId r = ''c1'')"
proof -
  let ?env = "calm_env\<lparr>failReadBlocked := True\<rparr>"
  have a: "alice_bob_blocked \<in> set (conversations blocked_db)"
    by (simp add: blocked_db_eq)
  have b: "between (p_senderId hello) (p_receiverId hello) alice_bob_blocked"
    by (simp add: between_def hello_def alice_bob_def alice_bob_blocked_def)
  have c: "isBlocked alice_bob_blocked"
    by (simp add: alice_bob_blocked_def)
  have d: "one_row_per_pair blocked_db"
    by (simp add: one_row_per_pair_def blocked_db_eq)
  have e: "unique_conv_ids blocked_db"
    by (simp add: unique_conv_ids_def blocked_db_eq)
  have f: "\<not> failFindConversation ?env" "failReadBlocked ?env" "\<not> failSaveMessage ?env"
    "\<not> failSaveMetadata ?env" "\<not> failUpdateConversation ?env"
    by (simp_all add: calm_env_def)
  have g: "newMongoId ?env \<notin> m_id ` set (messages blocked_db)"
    "newMetadataId ?env \<notin> meta_id ` set (metadata blocked_db)"
    by (simp_all add: calm_env_def blocked_db_eq chat_db_def first_message_def first_row_def)
  have v: "validateMessageContent ''Hello'' = Inr True"
    by code_simp
  have h: "truthy (p_content hello) \<and> p_messageType hello = TEXT \<longrightarrow>
             validateMessageContent (the (p_content hello)) = Inr True
             \<and> enc (env_cipher ?env) (env_salt ?env)
                 (sanitizeMessageContent (the (p_content hello))) \<noteq> None"
    using v by (simp add: hello_def calm_env_def toy_cipher_def)
  have i: "conv_id alice_bob_blocked = ''c1''"
    by (simp add: alice_bob_blocked_def alice_bob_def)
  show ?thesis
    using blocked_read_failure_lets_message_through [OF a b c d e f g h, of "''c1''" blocked_db]
      a c f(2)
    by (simp add: i)
qed

subsection \<open>The type and the payload of a stored message\<close>

text \<open>
  Claim C4, as stated, fails for text messages: \<open>sendMessage\<close> copies the media fields of
  its parameters into the document whatever the type. A text message sent with a media URL
  is stored with that URL.
\<close>

theorem sendMessage_text_with_media_counterexample:
  "\<not> isl (fst (sendMessage calm_env (hello\<lparr>p_mediaUrl := Some ''cat.png''\<rparr>) chat_db))
   \<and> length (messages (snd (sendMessage calm_env (hello\<lparr>p_mediaUrl := Some ''cat.png''\<rparr>) chat_db))) = 2
   \<and> m_messageType (last (messages (snd (sendMessage calm_env (hello\<lparr>p_mediaUrl := Some ''cat.png''\<rparr>) chat_db)))) = TEXT
   \<and> mediaUrl (last (messages (snd (sendMessage calm_env (hello\<lparr>p_mediaUrl := Some ''cat.png''\<rparr>) chat_db)))) = Some ''cat.png''
   \<and> \<not> no_media (last (messages (snd (sendMessage calm_env (hello\<lparr>p_mediaUrl := Some ''cat.png''\<rparr>) chat_db))))"
  by code_simp

text \<open>
  Claim C4, amended: a call of \<open>sendMessage\<close> adds at most one document, whether it returns
  or throws; that document has the type the caller gave and exactly the media fields the
  caller passed (so a text message has no media fields when the caller passed none), and
  a document of a non-text type has no encrypted body.
\<close>

theorem sendMessage_payload_as_sent:
  "messages (snd (sendMessage env p s)) = messages s
   \<or> (\<exists>m. messages (snd (sendMessage env p s)) = messages s @ [m]
        \<and> m_messageType m = p_messageType p \<and> media_as_sent p m
        \<and> (p_messageType p \<noteq> TEXT \<longrightarrow> encryptedContent m = None))"
proof -
  obtain r1 s1 where f: "findOrCreateConversation (failFindConversation env) (failSaveConversation env)
      (newConversationId env) (env_now env) (p_senderId p) (p_receiverId p) s = (r1, s1)"
    by (cases "findOrCreateConversation (failFindConversation env) (failSaveConversation env)
      (newConversationId env) (env_now env) (p_senderId p) (p_receiverId p) s")
  have m1: "messages s1 = messages s"
    using findOrCreateConversation_messages[of "failFindConversation env" "failSaveConversation env"
        "newConversationId env" "env_now env" "p_senderId p" "p_receiverId p" s] f
    by simp
  show ?thesis
  proof (cases r1)
    case (Inl e)
    then show ?thesis using f m1 by (simp add: sendMessage_def)
  next
    case (Inr conv)
    let ?d = "\<lparr>d_conversationId = conv_id conv,
                     d_senderId = p_senderId p,
                     d_receiverId = p_receiverId p,
                     d_messageType = p_messageType p,
                     d_encryptedContent = None,
                     d_mediaUrl = p_mediaUrl p,
                     d_mediaType = p_mediaType p,
                     d_mediaSize = p_mediaSize p,
                     d_fileName = p_fileName p,
                     d_thumbnailUrl = p_thumbnailUrl p,
                     d_replyToMessageId = p_replyToMessageId p\<rparr>"
    show ?thesis
    proof (cases "isConversationBlocked (failReadBlocked env) (conv_id conv) s1")
      case True
      then show ?thesis using f m1 Inr by (simp add: sendMessage_def)
    next
      case False
      show ?thesis
      proof (cases "prepare_content env p ?d")
        case (Inl e)
        then show ?thesis using f m1 Inr False by (simp add: sendMessage_def)
      next
        case pc: (Inr md)
        note pcs = prepare_content_Inr[OF pc]
        let ?cm = "createMessage (failSaveMessage env) (failSaveMetadata env)
                         (newMongoId env) (newMetadataId env) (env_now env) md s1"
        have after: "messages (snd (sendMessage env p s)) = messages (snd ?cm)"
          using f Inr False pc
          by (auto simp: sendMessage_def dest!: updateLastMessage_messagesD
              split: prod.splits sum.splits)
        show ?thesis
          using createMessage_messages[of "failSaveMessage env" "failSaveMetadata env"
              "newMongoId env" "newMetadataId env" "env_now env" md s1] pcs
          unfolding after m1 media_as_sent_def
          by auto
      qed
    qed
  qed
qed

theorem sendMessage_payload_as_sent_witness:
  "messages (snd (sendMessage calm_env (hello\<lparr>p_messageType := IMAGE, p_mediaUrl := Some ''cat.png''\<rparr>) chat_db))
     \<noteq> messages chat_db
   \<and> (\<exists>m. messages (snd (sendMessage calm_env (hello\<lparr>p_messageType := IMAGE, p_mediaUrl := Some ''cat.png''\<rparr>) chat_db))
            = messages chat_db @ [m]
          \<and> m_messageType m = IMAGE \<and> mediaUrl m = Some ''cat.png'' \<and> encryptedContent m = None)"
proof -
  let ?p = "hello\<lparr>p_messageType := IMAGE, p_mediaUrl := Some ''cat.png''\<rparr>"
  have n: "length (messages (snd (sendMessage calm_env ?p chat_db))) = 2" "length (messages chat_db) = 1"
    by code_simp+
  then have ne: "messages (snd (sendMessage calm_env ?p chat_db)) \<noteq> messages chat_db"
    by auto
  have t: "p_messageType ?p = IMAGE" "p_mediaUrl ?p = Some ''cat.png''"
    by simp_all
  show ?thesis
    using sendMessage_payload_as_sent [of calm_env ?p chat_db] ne
    unfolding media_as_sent_def t
    by auto
qed

subsection \<open>Validation of the content of a text message\<close>

lemma trim_Nil_iff: "trim c = [] \<longleftrightarrow> blank c"
proof -
  let ?ys = "dropWhile is_js_space c"
  have "trim c = [] \<longleftrightarrow> (\<forall>x\<in>set ?ys. is_js_space x)"
    by (simp add: trim_def dropWhile_eq_Nil_conv)
  also have "\<dots> \<longleftrightarrow> ?ys = []"
  proof
    assume all: "\<forall>x\<in>set ?ys. is_js_space x"
    show "?ys = []"
    proof (rule ccontr)
      assume ne: "?ys \<noteq> []"
      then have "\<not> is_js_space (hd ?ys)" by (rule hd_dropWhile)
      moreover have "hd ?ys \<in> set ?ys" using ne by simp
      ultimately show False using all by blast
    qed
  next
    assume e: "?ys = []"
    show "\<forall>x\<in>set ?ys. is_js_space x" unfolding e by simp
  qed
  also have "\<dots> \<longleftrightarrow> blank c"
    by (simp add: dropWhile_eq_Nil_conv blank_def list_all_iff)
  finally show ?thesis .
qed

lemma validateMessageContent_cases:
  "validateMessageContent c =
     (if blank c then Inl EmptyContent else if length c > 5000 then Inl TooLong else Inr True)"
proof -
  have "c = [] \<Longrightarrow> blank c" by (simp add: blank_def)
  then show ?thesis
    by (auto simp: validateMessageContent_def trim_Nil_iff MAX_MESSAGE_LENGTH_def)
qed

lemma prepare_content_invalid:
  assumes "p_messageType p = TEXT" "p_content p = Some c" "c \<noteq> []" "blank c \<or> length c > 5000"
  shows "prepare_content env p d = Inl (if blank c then EmptyContent else TooLong)"
  using assms by (auto simp: prepare_content_def validateMessageContent_cases)

text \<open>
  Claim C5, as stated, fails at the empty content: \<open>validateMessageContent\<close> does reject
  it, but \<open>sendMessage\<close> validates only a content that is truthy, so a text send with
  content \<^verbatim>\<open>""\<close> skips the validation and stores a message without a body.
\<close>

theorem sendMessage_empty_content_counterexample:
  "validateMessageContent [] = Inl EmptyContent
   \<and> \<not> isl (fst (sendMessage calm_env (hello\<lparr>p_content := Some []\<rparr>) chat_db))
   \<and> length (messages chat_db) = 1 \<and> length (metadata chat_db) = 1
   \<and> length (messages (snd (sendMessage calm_env (hello\<lparr>p_content := Some []\<rparr>) chat_db))) = 2
   \<and> length (metadata (snd (sendMessage calm_env (hello\<lparr>p_content := Some []\<rparr>) chat_db))) = 2
   \<and> encryptedContent (last (messages (snd (sendMessage calm_env (hello\<lparr>p_content := Some []\<rparr>) chat_db)))) = None"
  by code_simp

text \<open>
  Claim C5, amended: for every text send whose content is a non-empty string, validation
  fails with the empty-content error when the content is white space only and with the
  too-long error when it is not blank and longer than 5000; such a send throws and writes
  no document and no metadata row, and once the conversation is resolved and not found
  blocked the error it throws is that validation error.
\<close>

theorem sendMessage_rejects_invalid_text:
  assumes "p_messageType p = TEXT" and "p_content p = Some c" and "c \<noteq> []"
    and "blank c \<or> length c > 5000"
  shows "validateMessageContent x =
           (if blank x then Inl EmptyContent else if length x > 5000 then Inl TooLong else Inr True)
    \<and> validateMessageContent c = Inl (if blank c then EmptyContent else TooLong)
    \<and> isl (fst (sendMessage env p s))
    \<and> messages (snd (sendMessage env p s)) = messages s
    \<and> metadata (snd (sendMessage env p s)) = metadata s
    \<and> (\<forall>conv s1.
          findOrCreateConversation (failFindConversation env) (failSaveConversation env)
            (newConversationId env) (env_now env) (p_senderId p) (p_receiverId p) s = (Inr conv, s1)
          \<and> \<not> isConversationBlocked (failReadBlocked env) (conv_id conv) s1
          \<longrightarrow> sendMessage env p s = (Inl (if blank c then EmptyContent else TooLong), s1))"
proof -
  note pc = prepare_content_invalid[OF assms, of env]
  have v: "validateMessageContent c = Inl (if blank c then EmptyContent else TooLong)"
    using assms(4) by (auto simp: validateMessageContent_cases)
  obtain r1 s1 where f: "findOrCreateConversation (failFindConversation env) (failSaveConversation env)
      (newConversationId env) (env_now env) (p_senderId p) (p_receiverId p) s = (r1, s1)"
    by (cases "findOrCreateConversation (failFindConversation env) (failSaveConversation env)
      (newConversationId env) (env_now env) (p_senderId p) (p_receiverId p) s")
  have m1: "messages s1 = messages s \<and> metadata s1 = metadata s"
    using findOrCreateConversation_messages[of "failFindConversation env" "failSaveConversation env"
        "newConversationId env" "env_now env" "p_senderId p" "p_receiverId p" s] f
    by simp
  have r: "isl (fst (sendMessage env p s)) \<and> snd (sendMessage env p s) = s1"
    using f pc by (auto simp: sendMessage_def split: sum.splits)
  have last: "\<forall>conv s1.
          findOrCreateConversation (failFindConversation env) (failSaveConversation env)
            (newConversationId env) (env_now env) (p_senderId p) (p_receiverId p) s = (Inr conv, s1)
          \<and> \<not> isConversationBlocked (failReadBlocked env) (conv_id conv) s1
          \<longrightarrow> sendMessage env p s = (Inl (if blank c then EmptyContent else TooLong), s1)"
    using pc by (auto simp: sendMessage_resolved simp del: split_paired_All)
  show ?thesis using v r m1 last validateMessageContent_cases[of x] by simp
qed

theorem sendMessage_rejects_invalid_text_witness:
  "p_messageType (hello\<lparr>p_content := Some ''  ''\<rparr>) = TEXT
   \<and> blank ''  ''
   \<and> validateMessageContent ''  '' = Inl EmptyContent
   \<and> validateMessageContent (replicate 5001 CHR ''a'') = Inl TooLong
   \<and> sendMessage calm_env (hello\<lparr>p_content := Some ''  ''\<rparr>) chat_db = (Inl EmptyContent, chat_db)
   \<and> messages (snd (sendMessage calm_env (hello\<lparr>p_content := Some ''  ''\<rparr>) chat_db)) = messages chat_db
   \<and> metadata (snd (sendMessage calm_env (hello\<lparr>p_content := Some ''  ''\<rparr>) chat_db)) = metadata chat_db"
proof -
  let ?p = "hello\<lparr>p_content := Some ''  ''\<rparr>"
  have h1: "p_messageType ?p = TEXT" by (simp add: hello_def)
  have h2: "p_content ?p = Some ''  ''" by simp
  have h3: "''  '' \<noteq> []" by simp
  have b: "blank ''  ''" by (simp add: blank_def is_js_space_def)
  then have h4: "blank ''  '' \<or> length ''  '' > 5000" by simp
  note t = sendMessage_rejects_invalid_text [OF h1 h2 h3 h4, where env = calm_env and s = chat_db
      and x = "replicate 5001 CHR ''a''"]
  have nb5: "\<not> blank (replicate 5001 CHR ''a'')"
    by (simp add: blank_def list_all_iff is_js_space_def)
  have f: "findOrCreateConversation (failFindConversation calm_env) (failSaveConversation calm_env)
             (newConversationId calm_env) (env_now calm_env) (p_senderId ?p) (p_receiverId ?p) chat_db
           = (Inr alice_bob, chat_db)"
    by code_simp
  have nb: "\<not> isConversationBlocked (failReadBlocked calm_env) (conv_id alice_bob) chat_db"
    by code_simp
  from t f nb have "sendMessage calm_env ?p chat_db
      = (Inl (if blank ''  '' then EmptyContent else TooLong), chat_db)"
    by blast
  with b t h1 nb5 show ?thesis by simp
qed

section \<open>The one-way flags of a message\<close>

subsection \<open>Nothing is removed, no flag goes back\<close>

lemma flags_kept_refl: "flags_kept r r"
  by (simp add: flags_kept_def)

lemma flags_kept_trans: "flags_kept a b \<Longrightarrow> flags_kept b c \<Longrightarrow> flags_kept a c"
  by (simp add: flags_kept_def)

lemma nothing_lost_iff:
  "nothing_lost s s' \<longleftrightarrow>
     (\<exists>ys rest more. metadata s' = ys @ rest \<and> list_all2 flags_kept (metadata s) ys
        \<and> messages s' = messages s @ more)"
proof
  assume n: "nothing_lost s s'"
  let ?k = "length (metadata s)" and ?j = "length (messages s)"
  have "metadata s' = take ?k (metadata s') @ drop ?k (metadata s')" by simp
  moreover have "list_all2 flags_kept (metadata s) (take ?k (metadata s'))"
    using n by (simp add: nothing_lost_def)
  moreover have "messages s' = messages s @ drop ?j (messages s')"
    using n append_take_drop_id[of ?j "messages s'"] by (simp add: nothing_lost_def)
  ultimately show "\<exists>ys rest more. metadata s' = ys @ rest \<and> list_all2 flags_kept (metadata s) ys
        \<and> messages s' = messages s @ more"
    by blast
next
  assume "\<exists>ys rest more. metadata s' = ys @ rest \<and> list_all2 flags_kept (metadata s) ys
        \<and> messages s' = messages s @ more"
  then obtain ys rest more where h: "metadata s' = ys @ rest" "list_all2 flags_kept (metadata s) ys"
    "messages s' = messages s @ more" by blast
  from h(2) have len: "length ys = length (metadata s)" by (simp add: list_all2_lengthD)
  show "nothing_lost s s'"
    using h len by (simp add: nothing_lost_def)
qed

lemma nothing_lost_refl: "nothing_lost s s"
  by (simp add: nothing_lost_def list_all2_same flags_kept_refl)

lemma nothing_lost_trans:
  assumes "nothing_lost s s'" "nothing_lost s' s''"
  shows "nothing_lost s s''"
proof -
  from assms(1) obtain ys rest more where h: "metadata s' = ys @ rest"
    "list_all2 flags_kept (metadata s) ys" "messages s' = messages s @ more"
    unfolding nothing_lost_iff by blast
  from assms(2) obtain zs rest2 more2 where g: "metadata s'' = zs @ rest2"
    "list_all2 flags_kept (metadata s') zs" "messages s'' = messages s' @ more2"
    unfolding nothing_lost_iff by blast
  from g(2) h(1) obtain z1 z2 where z: "zs = z1 @ z2" "list_all2 flags_kept ys z1"
    by (auto simp: list_all2_append1)
  have "list_all2 flags_kept (metadata s) z1"
    using h(2) z(2) flags_kept_trans by (rule list_all2_trans[rotated])
  moreover have "metadata s'' = z1 @ (z2 @ rest2)" using g(1) z(1) by simp
  moreover have "messages s'' = messages s @ (more @ more2)" using g(3) h(3) by simp
  ultimately show ?thesis unfolding nothing_lost_iff by blast
qed

lemma update_metadata_nothing_lost:
  assumes "\<And>r. flags_kept r (f r)"
  shows "nothing_lost s (snd (update_metadata fails ids f s))"
  using assms
  by (simp add: update_metadata_def nothing_lost_def list_all2_map2 list_all2_same flags_kept_refl)

lemma createMessage_nothing_lost: "nothing_lost s (snd (createMessage f1 f2 i1 i2 now d s))"
  by (simp add: nothing_lost_def createMessage_def save_message_def save_metadata_def
      list_all2_same flags_kept_refl)

lemma deleteMessage_nothing_lost: "nothing_lost s (snd (deleteMessage f1 f2 i u s))"
proof -
  have "nothing_lost s (snd (update_metadata f2 [i] (\<lambda>r. r\<lparr>isDeleted := True\<rparr>) s))"
    by (rule update_metadata_nothing_lost) (simp add: flags_kept_def)
  then show ?thesis
    by (simp add: deleteMessage_def nothing_lost_refl split: option.splits)
qed

lemma run_call_nothing_lost: "nothing_lost s (run_call c s)"
proof (cases c)
  case (CreateMessage f1 f2 i1 i2 now d)
  then show ?thesis by (simp add: createMessage_nothing_lost)
next
  case (MarkAsDelivered f now i)
  then show ?thesis
    by (simp add: markAsDelivered_def update_metadata_nothing_lost flags_kept_def nothing_lost_refl)
next
  case (MarkAsRead f now ids)
  then show ?thesis
    by (simp add: markAsRead_def update_metadata_nothing_lost flags_kept_def nothing_lost_refl)
next
  case (DeleteMessage f1 f2 i u)
  then show ?thesis by (simp add: deleteMessage_nothing_lost)
qed

lemma run_calls_nothing_lost: "nothing_lost s (run_calls cs s)"
proof (induction cs arbitrary: s)
  case Nil
  then show ?case by (simp add: run_calls_def nothing_lost_refl)
next
  case (Cons c cs)
  have "nothing_lost (run_call c s) (run_calls cs (run_call c s))" by (rule Cons.IH)
  with run_call_nothing_lost[of s c] have "nothing_lost s (run_calls cs (run_call c s))"
    by (rule nothing_lost_trans)
  then show ?case by (simp add: run_calls_def)
qed

subsection \<open>Marking delivered and read\<close>










section \<open>Deleting a message\<close>

lemma list_all_mapI: "(\<And>x. x \<in> set xs \<Longrightarrow> P (f x)) \<Longrightarrow> list_all P (map f xs)"
  by (induction xs) auto

lemma map_deleted_in:
  assumes "deleted_in mid s" "\<And>r. meta_id (g r) = meta_id r" "\<And>r. isDeleted r \<Longrightarrow> isDeleted (g r)"
  shows "deleted_in mid (s\<lparr>metadata := map g (metadata s)\<rparr>)"
proof -
  from assms(1) obtain r where r: "r \<in> set (metadata s)" "meta_id r = mid"
    by (auto simp: deleted_in_def list_ex_iff)
  then have "g r \<in> set (map g (metadata s))" "meta_id (g r) = mid"
    using assms(2) by simp_all
  then have ex: "list_ex (\<lambda>r. meta_id r = mid) (map g (metadata s))"
    unfolding list_ex_iff by blast
  have "list_all (\<lambda>r. meta_id r = mid \<longrightarrow> isDeleted r) (map g (metadata s))"
    using assms by (auto simp: deleted_in_def list_all_iff)
  with ex show ?thesis by (simp add: deleted_in_def)
qed

lemma update_metadata_deleted_in:
  assumes "deleted_in mid s" "\<And>r. meta_id (f r) = meta_id r" "\<And>r. isDeleted r \<Longrightarrow> isDeleted (f r)"
  shows "deleted_in mid (snd (update_metadata fails ids f s))"
proof (cases fails)
  case True
  with assms(1) show ?thesis by (simp add: update_metadata_def)
next
  case False
  have "deleted_in mid (s\<lparr>metadata := map (\<lambda>r. if meta_id r \<in> set ids then f r else r) (metadata s)\<rparr>)"
    using assms by (intro map_deleted_in) simp_all
  with False show ?thesis by (simp add: update_metadata_def)
qed

lemma createMessage_deleted_in:
  assumes "deleted_in mid s"
  shows "deleted_in mid (snd (createMessage f1 f2 i1 i2 now d s))"
  using assms
  by (auto simp: deleted_in_def createMessage_def save_message_def save_metadata_def
      list_ex_iff list_all_iff)

lemma deleteMessage_keeps_deleted_in:
  assumes "deleted_in mid s"
  shows "deleted_in mid (snd (deleteMessage f1 f2 i u s))"
proof -
  have "deleted_in mid (snd (update_metadata f2 [i] (\<lambda>r. r\<lparr>isDeleted := True\<rparr>) s))"
    using assms by (rule update_metadata_deleted_in) simp_all
  with assms show ?thesis
    by (simp add: deleteMessage_def split: option.splits)
qed

lemma run_call_deleted_in: "deleted_in mid s \<Longrightarrow> deleted_in mid (run_call c s)"
proof (cases c)
  case (CreateMessage f1 f2 i1 i2 now d)
  assume "deleted_in mid s"
  with CreateMessage show ?thesis by (simp add: createMessage_deleted_in)
next
  case (MarkAsDelivered f now i)
  assume "deleted_in mid s"
  with MarkAsDelivered show ?thesis
    by (simp add: markAsDelivered_def update_metadata_deleted_in)
next
  case (MarkAsRead f now ids)
  assume "deleted_in mid s"
  with MarkAsRead show ?thesis
    by (simp add: markAsRead_def update_metadata_deleted_in)
next
  case (DeleteMessage f1 f2 i u)
  assume "deleted_in mid s"
  with DeleteMessage show ?thesis by (simp add: deleteMessage_keeps_deleted_in)
qed

lemma run_calls_deleted_in: "deleted_in mid s \<Longrightarrow> deleted_in mid (run_calls cs s)"
proof (induction cs arbitrary: s)
  case Nil
  then show ?case by (simp add: run_calls_def)
next
  case (Cons c cs)
  from Cons.prems have "deleted_in mid (run_call c s)" by (rule run_call_deleted_in)
  then have "deleted_in mid (run_calls cs (run_call c s))" by (rule Cons.IH)
  then show ?case by (simp add: run_calls_def)
qed

lemma deleteMessage_by_sender:
  assumes "find (\<lambda>r. meta_id r = mid) (metadata s) = Some r0" "senderId r0 = u"
  shows "fst (deleteMessage False False mid u s) = Inr ()
         \<and> deleted_in mid (snd (deleteMessage False False mid u s))"
proof -
  let ?g = "\<lambda>r. if meta_id r \<in> set [mid] then r\<lparr>isDeleted := True\<rparr> else r"
  from assms(1) have r0: "r0 \<in> set (metadata s)" "meta_id r0 = mid"
    by (auto simp: find_Some_iff)
  have res: "deleteMessage False False mid u s = (Inr (), s\<lparr>metadata := map ?g (metadata s)\<rparr>)"
    using assms by (simp add: deleteMessage_def update_metadata_def)
  have "?g r0 \<in> ?g ` set (metadata s)" using r0(1) by (rule imageI)
  then have "?g r0 \<in> set (map ?g (metadata s))" unfolding set_map .
  moreover have "meta_id (?g r0) = mid" using r0(2) by simp
  ultimately have ex: "list_ex (\<lambda>r. meta_id r = mid) (map ?g (metadata s))"
    unfolding list_ex_iff by blast
  have "list_all (\<lambda>r. meta_id r = mid \<longrightarrow> isDeleted r) (map ?g (metadata s))"
    by (rule list_all_mapI) simp
  with ex res show ?thesis by (simp add: deleted_in_def)
qed

lemma page_rows:
  assumes "getMessagesByConversation fm fd cid page limit s = Inr (ms, total0)"
    and "(m, r) \<in> set ms"
  shows "r \<in> set (metadata s) \<and> \<not> isDeleted r \<and> conversationId r = cid"
proof -
  let ?rows = "filter (\<lambda>r. conversationId r = cid \<and> isDeleted r = False) (metadata s)"
  let ?page = "take (nat limit) (drop (nat ((page - 1) * limit)) (rev (sort_key createdAt ?rows)))"
  from assms have "r \<in> set ?page"
    by (auto simp: getMessagesByConversation_def find_metadata_page_def Let_def
        List.map_filter_def split: if_splits option.splits)
  then have "r \<in> set (rev (sort_key createdAt ?rows))"
    by (meson in_set_takeD in_set_dropD)
  then have "r \<in> set ?rows" by simp
  then show ?thesis by simp
qed

lemma deleted_not_in_page:
  assumes "deleted_in mid s"
    and "getMessagesByConversation fm fd cid page limit s = Inr (ms, total0)"
  shows "mid \<notin> (\<lambda>(m, r). meta_id r) ` set ms"
proof
  assume "mid \<in> (\<lambda>(m, r). meta_id r) ` set ms"
  then obtain m r where mr: "(m, r) \<in> set ms" "meta_id r = mid" by auto
  from page_rows[OF assms(2) mr(1)] have "r \<in> set (metadata s)" "\<not> isDeleted r" by simp_all
  with assms(1) mr(2) show False by (auto simp: deleted_in_def list_all_iff)
qed

text \<open>
  Claim C7: for a stored message, \<open>deleteMessage\<close> by a requester who is not its sender
  fails with \<open>Unauthorized\<close> and leaves the state unchanged. By the sender it returns and
  sets the deleted flag; from then on, whatever calls to the message repository follow,
  the flag stays, no page of \<open>getMessagesByConversation\<close> contains the message, and neither
  its metadata row nor any document has been removed.
\<close>

theorem deleteMessage_only_by_sender:
  assumes "find (\<lambda>r. meta_id r = messageId) (metadata s) = Some r0"
  shows "(senderId r0 \<noteq> userId \<longrightarrow> deleteMessage False fu messageId userId s = (Inl Unauthorized, s))
    \<and> (senderId r0 = userId \<longrightarrow>
         fst (deleteMessage False False messageId userId s) = Inr ()
         \<and> deleted_in messageId (run_calls cs (snd (deleteMessage False False messageId userId s)))
         \<and> nothing_lost s (run_calls cs (snd (deleteMessage False False messageId userId s)))
         \<and> (\<forall>ms total0.
               getMessagesByConversation fm fd cid page limit
                 (run_calls cs (snd (deleteMessage False False messageId userId s))) = Inr (ms, total0)
               \<longrightarrow> messageId \<notin> (\<lambda>(m, r). meta_id r) ` set ms))"
proof -
  have 1: "senderId r0 \<noteq> userId \<longrightarrow> deleteMessage False fu messageId userId s = (Inl Unauthorized, s)"
    using assms by (simp add: deleteMessage_def)
  have 2: "senderId r0 = userId \<longrightarrow>
         fst (deleteMessage False False messageId userId s) = Inr ()
         \<and> deleted_in messageId (run_calls cs (snd (deleteMessage False False messageId userId s)))
         \<and> nothing_lost s (run_calls cs (snd (deleteMessage False False messageId userId s)))
         \<and> (\<forall>ms total0.
               getMessagesByConversation fm fd cid page limit
                 (run_calls cs (snd (deleteMessage False False messageId userId s))) = Inr (ms, total0)
               \<longrightarrow> messageId \<notin> (\<lambda>(m, r). meta_id r) ` set ms)"
  proof
    assume snd: "senderId r0 = userId"
    let ?s1 = "snd (deleteMessage False False messageId userId s)"
    note d = deleteMessage_by_sender[OF assms snd]
    have di: "deleted_in messageId (run_calls cs ?s1)"
      using d by (simp add: run_calls_deleted_in)
    have nl: "nothing_lost s (run_calls cs ?s1)"
      using deleteMessage_nothing_lost[of s False False messageId userId]
        run_calls_nothing_lost[of ?s1 cs]
      by (rule nothing_lost_trans)
    show "fst (deleteMessage False False messageId userId s) = Inr ()
         \<and> deleted_in messageId (run_calls cs ?s1)
         \<and> nothing_lost s (run_calls cs ?s1)
         \<and> (\<forall>ms total0.
               getMessagesByConversation fm fd cid page limit (run_calls cs ?s1) = Inr (ms, total0)
               \<longrightarrow> messageId \<notin> (\<lambda>(m, r). meta_id r) ` set ms)"
      using d di nl deleted_not_in_page[OF di] by blast
  qed
  show ?thesis using 1 2 by blast
qed

theorem deleteMessage_only_by_sender_witness:
  "find (\<lambda>r. meta_id r = ''m0'') (metadata chat_db) = Some first_row
   \<and> senderId first_row = ''bob''
   \<and> deleteMessage False False ''m0'' ''alice'' chat_db = (Inl Unauthorized, chat_db)
   \<and> fst (deleteMessage False False ''m0'' ''bob'' chat_db) = Inr ()
   \<and> deleted_in ''m0'' (run_calls [MarkAsRead False 8 [''m0'']]
                          (snd (deleteMessage False False ''m0'' ''bob'' chat_db)))
   \<and> nothing_lost chat_db (run_calls [MarkAsRead False 8 [''m0'']]
                          (snd (deleteMessage False False ''m0'' ''bob'' chat_db)))
   \<and> getMessagesByConversation False False ''c1'' 1 50
        (run_calls [MarkAsRead False 8 [''m0'']] (snd (deleteMessage False False ''m0'' ''bob'' chat_db)))
      = Inr ([], 0)
   \<and> getMessagesByConversation False False ''c1'' 1 50 chat_db = Inr ([(first_message, first_row)], 1)"
proof -
  have f: "find (\<lambda>r. meta_id r = ''m0'') (metadata chat_db) = Some first_row"
    by (simp add: chat_db_def first_row_def)
  have sb: "senderId first_row = ''bob''" "senderId first_row \<noteq> ''alice''"
    by (simp_all add: first_row_def)
  have p0: "getMessagesByConversation False False ''c1'' 1 50 chat_db
              = Inr ([(first_message, first_row)], 1)"
    by code_simp
  have p1: "getMessagesByConversation False False ''c1'' 1 50
              (run_calls [MarkAsRead False 8 [''m0'']]
                 (snd (deleteMessage False False ''m0'' ''bob'' chat_db)))
              = Inr ([], 0)"
    by code_simp
  show ?thesis
    using deleteMessage_only_by_sender [OF f, of "''alice''" False]
      deleteMessage_only_by_sender [OF f, of "''bob''" False "[MarkAsRead False 8 [''m0'']]"]
      f sb p0 p1
    by simp
qed

section \<open>Counting unread messages\<close>

text \<open>
  Claim C8: when its query succeeds, \<open>getUnreadCount\<close> returns the number of metadata rows
  whose receiver is the user and whose read and deleted flags are false, of the given
  conversation when a conversation id (a non-empty string) is given; the method of the
  service asks for the count over all conversations.
\<close>

theorem getUnreadCount_counts:
  assumes "conversationId0 \<noteq> Some []"
  shows "getUnreadCount False userId conversationId0 s
           = unread_count_spec userId conversationId0 (metadata s)
         \<and> service_getUnreadCount False userId s = unread_count_spec userId None (metadata s)"
proof (cases conversationId0)
  case None
  then show ?thesis
    by (simp add: getUnreadCount_def service_getUnreadCount_def unread_count_spec_def)
next
  case (Some c)
  with assms have "c \<noteq> []" by simp
  with Some have "getUnreadCount False userId conversationId0 s
           = unread_count_spec userId conversationId0 (metadata s)"
    by (simp add: getUnreadCount_def unread_count_spec_def conj_assoc)
  then show ?thesis
    by (simp add: getUnreadCount_def service_getUnreadCount_def unread_count_spec_def)
qed

theorem getUnreadCount_counts_witness:
  "Some ''c1'' \<noteq> Some []
   \<and> getUnreadCount False ''alice'' (Some ''c1'') corrupted_db = 1
   \<and> unread_count_spec ''alice'' (Some ''c1'') (metadata corrupted_db) = 1
   \<and> service_getUnreadCount False ''bob'' corrupted_db = 1
   \<and> getUnreadCount False ''alice'' (Some ''c2'') corrupted_db = 0"
proof -
  have h: "Some ''c1'' \<noteq> Some []" "Some ''c2'' \<noteq> Some []"
    by simp_all
  have c: "unread_count_spec ''alice'' (Some ''c1'') (metadata corrupted_db) = 1"
    "unread_count_spec ''bob'' None (metadata corrupted_db) = 1"
    "unread_count_spec ''alice'' (Some ''c2'') (metadata corrupted_db) = 0"
    by code_simp+
  show ?thesis
    using getUnreadCount_counts [OF h(1), of "''alice''" corrupted_db]
      getUnreadCount_counts [OF h(1), of "''bob''" corrupted_db]
      getUnreadCount_counts [OF h(2), of "''alice''" corrupted_db] c
    by simp
qed

section \<open>Reading the history\<close>

lemma formatMessage_placeholder:
  assumes "truthy (encryptedContent m)" "m_messageType m = TEXT"
    "isl (decryptMessage cph (the (encryptedContent m)))"
  shows "o_content (formatMessage cph m r) = Some ''[Encrypted message]''"
  using assms by (auto simp: formatMessage_def split: sum.splits)

lemma formatMessage_id: "o_id (formatMessage cph m r) = meta_id r"
  by (simp add: formatMessage_def Let_def)

text \<open>
  Claim C9: whatever the cipher does, when the page of messages is read from the stores
  \<open>getConversationHistory\<close> returns that whole page, one formatted message for each
  message of the page and in the same order; and a text message whose ciphertext fails to
  decrypt is formatted with the content "[Encrypted message]".
\<close>

theorem history_survives_decryption_failure:
  assumes "getMessagesByConversation fm fd cid page limit s = Inr (ms, total0)"
  shows "getConversationHistory cph fm fd cid page limit s
           = Inr (map (\<lambda>(m, r). formatMessage cph m r) ms, total0)
    \<and> map o_id (map (\<lambda>(m, r). formatMessage cph m r) ms) = map (\<lambda>(m, r). meta_id r) ms
    \<and> (\<forall>(m, r) \<in> set ms.
          truthy (encryptedContent m) \<and> m_messageType m = TEXT
          \<and> isl (decryptMessage cph (the (encryptedContent m)))
          \<longrightarrow> o_content (formatMessage cph m r) = Some ''[Encrypted message]'')"
  using assms
  by (auto simp: getConversationHistory_def formatMessage_placeholder formatMessage_id)

theorem history_survives_decryption_failure_witness:
  "getMessagesByConversation False False ''c1'' 1 50 corrupted_db
     = Inr ([(second_message, second_row),
             (first_message\<lparr>encryptedContent := Some ''s''\<rparr>, first_row)], 2)
   \<and> decryptMessage toy_cipher ''s'' = Inl DecryptFailed
   \<and> getConversationHistory toy_cipher False False ''c1'' 1 50 corrupted_db
     = Inr ([formatMessage toy_cipher second_message second_row,
             formatMessage toy_cipher (first_message\<lparr>encryptedContent := Some ''s''\<rparr>) first_row], 2)
   \<and> o_content (formatMessage toy_cipher second_message second_row) = Some ''Hello''
   \<and> o_content (formatMessage toy_cipher (first_message\<lparr>encryptedContent := Some ''s''\<rparr>) first_row)
     = Some ''[Encrypted message]''"
proof -
  have h: "getMessagesByConversation False False ''c1'' 1 50 corrupted_db
     = Inr ([(second_message, second_row),
             (first_message\<lparr>encryptedContent := Some ''s''\<rparr>, first_row)], 2)"
    by code_simp
  have d: "decryptMessage toy_cipher ''s'' = Inl DecryptFailed"
    by code_simp
  have c: "o_content (formatMessage toy_cipher second_message second_row) = Some ''Hello''"
    "o_content (formatMessage toy_cipher (first_message\<lparr>encryptedContent := Some ''s''\<rparr>) first_row)
     = Some ''[Encrypted message]''"
    by code_simp+
  show ?thesis
    using history_survives_decryption_failure [OF h, of toy_cipher] h d c
    by simp
qed

end
